theory Spec2Isabelle
  imports Main "HOL-Library.AList" "HOL-Library.Monad_Syntax"
begin

section \<open>Values read from the wire\<close>

text \<open>
  Text is held as its UTF-8 byte sequence: a \<^typ>\<open>string\<close> is the list of bytes of
  a JavaScript string, so a Chinese status text is several \<^typ>\<open>char\<close>s long.

  A value produced by \<^verbatim>\<open>JSON.parse\<close> is a \<open>json\<close>. A number is held as the text
  \<^verbatim>\<open>String(n)\<close> prints for it, which identifies the number up to the sign of zero.
  An object is its list of own properties; \<open>undefined\<close> is \<open>None\<close> wherever a value
  may be missing.
\<close>

datatype json =
    JNull
  | JBool bool
  | JNum string
  | JStr string
  | JArr "json list"
  | JObj "(string \<times> json) list"

text \<open>\<^verbatim>\<open>Boolean(x)\<close>, and the truth test of \<^verbatim>\<open>x ? a : b\<close> and \<^verbatim>\<open>x && y\<close>.\<close>

fun js_truthy :: "json \<Rightarrow> bool" where
  "js_truthy JNull = False"
| "js_truthy (JBool b) = b"
| "js_truthy (JNum n) = (n \<noteq> ''0'' \<and> n \<noteq> ''NaN'')"
| "js_truthy (JStr s) = (s \<noteq> [])"
| "js_truthy (JArr xs) = True"
| "js_truthy (JObj kvs) = True"

definition js_truthy_opt :: "json option \<Rightarrow> bool" where
  "js_truthy_opt x = (case x of None \<Rightarrow> False | Some v \<Rightarrow> js_truthy v)"

text \<open>
  \<^verbatim>\<open>x.k\<close> for a key \<open>k\<close> that no built-in prototype defines (every key the widget
  reads is such a key): the own property of an object, \<open>undefined\<close> on an array, a
  string, a number or a boolean.
\<close>

fun js_get :: "json \<Rightarrow> string \<Rightarrow> json option" where
  "js_get (JObj kvs) k = map_of kvs k"
| "js_get _ k = None"

text \<open>\<^verbatim>\<open>typeof x === 'object' && x !== null\<close>.\<close>

fun js_is_object :: "json \<Rightarrow> bool" where
  "js_is_object (JObj kvs) = True"
| "js_is_object (JArr xs) = True"
| "js_is_object _ = False"

text \<open>\<^verbatim>\<open>'k' in x\<close> on a value that passed the object test.\<close>

fun js_in :: "string \<Rightarrow> json \<Rightarrow> bool" where
  "js_in k (JObj kvs) = (map_of kvs k \<noteq> None)"
| "js_in k _ = False"

text \<open>\<^verbatim>\<open>typeof x === 'string' ? x : null\<close>.\<close>

fun js_string_or_null :: "json option \<Rightarrow> string option" where
  "js_string_or_null (Some (JStr s)) = Some s"
| "js_string_or_null _ = None"

fun join_comma :: "string option list \<Rightarrow> string option" where
  "join_comma [] = Some []"
| "join_comma [x] = x"
| "join_comma (x # y # ys) =
     (case x of None \<Rightarrow> None
      | Some a \<Rightarrow> (case join_comma (y # ys) of None \<Rightarrow> None | Some b \<Rightarrow> Some (a @ '','' @ b)))"

text \<open>
  \<^verbatim>\<open>String(x)\<close>. The result \<open>None\<close> is the \<open>TypeError\<close> that the conversion throws for
  an object whose own property \<open>toString\<close> hides the inherited method (a parsed value
  is never callable). An array prints its elements separated by commas, with
  \<open>null\<close> printed as the empty text.
\<close>

fun js_String :: "json \<Rightarrow> string option" where
  "js_String JNull = Some ''null''"
| "js_String (JBool b) = Some (if b then ''true'' else ''false'')"
| "js_String (JNum n) = Some n"
| "js_String (JStr s) = Some s"
| "js_String (JArr xs) = join_comma (map (\<lambda>x. if x = JNull then Some [] else js_String x) xs)"
| "js_String (JObj kvs) =
     (if map_of kvs ''toString'' \<noteq> None then None else Some ''[object Object]'')"

text \<open>\<^verbatim>\<open>String(x ?? '')\<close>.\<close>

definition string_or_empty :: "json option \<Rightarrow> string option" where
  "string_or_empty x =
     (case x of None \<Rightarrow> Some [] | Some JNull \<Rightarrow> Some [] | Some v \<Rightarrow> js_String v)"

text \<open>\<^verbatim>\<open>x ? String(x) : undefined\<close>; the outer \<open>None\<close> is again the thrown error.\<close>

definition string_if_truthy :: "json option \<Rightarrow> string option option" where
  "string_if_truthy x =
     (if js_truthy_opt x then map_option Some (js_String (the x)) else Some None)"

text \<open>
  A value the widget holds at run time: a parsed value, or \<open>undefined\<close>. \<open>JText s\<close>
  is the string \<open>s\<close>.
\<close>

type_synonym jsvalue = "json option"

abbreviation JText :: "string \<Rightarrow> jsvalue" where
  "JText s \<equiv> Some (JStr s)"

text \<open>
  The arithmetic of the platform on numbers held as text: \<open>literal_value\<close> takes a
  number literal to the text \<^verbatim>\<open>String\<close> prints for the number it denotes, and
  \<open>number_sum\<close> takes the texts of two numbers to the text of their sum.
  Floating-point rounding and printing are the platform's and are not modelled, so
  both are parameters of whatever parses or adds.
\<close>

record numerics =
  literal_value :: "string \<Rightarrow> string"
  number_sum :: "string \<Rightarrow> string \<Rightarrow> string"

text \<open>A primitive value, as \<open>ToPrimitive\<close> returns it.\<close>

datatype prim = PUndefined | PNull | PBool bool | PNum string | PStr string

text \<open>
  \<open>ToPrimitive\<close>: an object or an array becomes the string \<^verbatim>\<open>String\<close> gives, or the
  conversion throws as \<^verbatim>\<open>String\<close> does.
\<close>

fun to_primitive :: "jsvalue \<Rightarrow> prim option" where
  "to_primitive None = Some PUndefined"
| "to_primitive (Some JNull) = Some PNull"
| "to_primitive (Some (JBool b)) = Some (PBool b)"
| "to_primitive (Some (JNum n)) = Some (PNum n)"
| "to_primitive (Some (JStr s)) = Some (PStr s)"
| "to_primitive (Some (JArr xs)) = map_option PStr (js_String (JArr xs))"
| "to_primitive (Some (JObj kvs)) = map_option PStr (js_String (JObj kvs))"

fun prim_is_string :: "prim \<Rightarrow> bool" where
  "prim_is_string (PStr s) = True"
| "prim_is_string _ = False"

text \<open>\<open>ToString\<close> of a primitive.\<close>

fun prim_string :: "prim \<Rightarrow> string" where
  "prim_string PUndefined = ''undefined''"
| "prim_string PNull = ''null''"
| "prim_string (PBool b) = (if b then ''true'' else ''false'')"
| "prim_string (PNum n) = n"
| "prim_string (PStr s) = s"

text \<open>\<open>ToNumber\<close> of a primitive that is not a string, as the text of the number.\<close>

fun prim_number :: "prim \<Rightarrow> string" where
  "prim_number PUndefined = ''NaN''"
| "prim_number PNull = ''0''"
| "prim_number (PBool b) = (if b then ''1'' else ''0'')"
| "prim_number (PNum n) = n"
| "prim_number (PStr s) = s"

text \<open>
  \<^verbatim>\<open>a + b\<close>: both operands are made primitive, left first; if one of them is a
  string the result is the concatenation of their texts, otherwise the sum of their
  numbers. \<open>None\<close> is the \<open>TypeError\<close> of a conversion.
\<close>

definition js_plus :: "numerics \<Rightarrow> jsvalue \<Rightarrow> jsvalue \<Rightarrow> jsvalue option" where
  "js_plus num a b =
     (case to_primitive a of
        None \<Rightarrow> None
      | Some pa \<Rightarrow>
          (case to_primitive b of
             None \<Rightarrow> None
           | Some pb \<Rightarrow>
               Some (if prim_is_string pa \<or> prim_is_string pb
                     then JText (prim_string pa @ prim_string pb)
                     else Some (JNum (number_sum num (prim_number pa) (prim_number pb))))))"

section \<open>The data of \<^verbatim>\<open>types/chat.ts\<close>\<close>

text \<open>
  The fields \<open>content\<close> are declared as strings. Nothing checks what a parsed record
  carries there, so at run time they hold any value.
\<close>

datatype MessageRole = User | Assistant | System

datatype MessageType = Text | Status

text \<open>
  A message id is the literal \<^verbatim>\<open>'welcome'\<close> or a value of \<^verbatim>\<open>crypto.randomUUID()\<close>;
  \<open>Uuid n\<close> is the \<open>n\<close>-th value drawn, and two draws never give the same value.
\<close>

datatype MessageId = Welcome | Uuid nat

record ChatMessage =
  m_id :: MessageId
  m_role :: MessageRole
  m_content :: jsvalue
  m_createdAt :: nat
  m_type :: "MessageType option"

record ReservationProposal =
  resource_id :: string
  start_time :: string
  end_time :: "string option"
  reservation_id :: "string option"
  note_text :: "string option"

datatype ReservationDecisionAction = Confirm | Cancel

text \<open>
  \<open>tool_output\<close> (the field \<open>output\<close>) is \<open>None\<close> when the record has no such field; the declared type of the
  field is an object, but the handler inspects whatever was parsed.
\<close>

record ToolEventPayload =
  tool_name :: string
  tool_output :: "json option"

datatype StreamEvent =
    Token jsvalue
  | Message jsvalue
  | Tool ToolEventPayload
  | Done

section \<open>The state of \<^verbatim>\<open>ChatWidget\<close>\<close>

text \<open>
  The React state variables and refs of the component, together with the two
  sources of fresh values it reads: \<open>uuid_drawn\<close> counts the calls of
  \<^verbatim>\<open>crypto.randomUUID()\<close> so far, \<open>clock\<close> is what \<^verbatim>\<open>Date.now()\<close> returns.
\<close>

record ChatWidget =
  isOpen :: bool
  hasUnread :: bool
  messages :: "ChatMessage list"
  isStreaming :: bool
  activeAssistantMessageId :: "MessageId option"
  sessionId :: string
  pendingProposal :: "ReservationProposal option"
  decisionLoading :: "ReservationDecisionAction option"
  queuedProposalRef :: "ReservationProposal option"
  uuid_drawn :: nat
  clock :: nat

subsection \<open>Texts shown to the user\<close>

definition msg_format_error :: string where
  \<comment> \<open>"the query result is malformed, no reservation option can be shown"\<close>
  "msg_format_error =
     [CHR 0xE6, CHR 0x9F, CHR 0xA5, CHR 0xE8, CHR 0xAF, CHR 0xA2, CHR 0xE7, CHR 0xBB, CHR 0x93,
      CHR 0xE6, CHR 0x9E, CHR 0x9C, CHR 0xE6, CHR 0xA0, CHR 0xBC, CHR 0xE5, CHR 0xBC, CHR 0x8F,
      CHR 0xE5, CHR 0xBC, CHR 0x82, CHR 0xE5, CHR 0xB8, CHR 0xB8, CHR 0xEF, CHR 0xBC, CHR 0x8C,
      CHR 0xE6, CHR 0x9A, CHR 0x82, CHR 0xE6, CHR 0x97, CHR 0xA0, CHR 0xE6, CHR 0xB3, CHR 0x95,
      CHR 0xE5, CHR 0xB1, CHR 0x95, CHR 0xE7, CHR 0xA4, CHR 0xBA, CHR 0xE9, CHR 0xA2, CHR 0x84,
      CHR 0xE7, CHR 0xBA, CHR 0xA6, CHR 0xE9, CHR 0x80, CHR 0x89, CHR 0xE9, CHR 0xA1, CHR 0xB9,
      CHR 0xE3, CHR 0x80, CHR 0x82]"

definition msg_no_resource :: string where
  \<comment> \<open>"no free resource matches at the moment, please adjust the request"\<close>
  "msg_no_resource =
     [CHR 0xE5, CHR 0xBD, CHR 0x93, CHR 0xE5, CHR 0x89, CHR 0x8D, CHR 0xE6, CHR 0x9A, CHR 0x82,
      CHR 0xE6, CHR 0x97, CHR 0xA0, CHR 0xE7, CHR 0xAC, CHR 0xA6, CHR 0xE5, CHR 0x90, CHR 0x88,
      CHR 0xE6, CHR 0x9D, CHR 0xA1, CHR 0xE4, CHR 0xBB, CHR 0xB6, CHR 0xE7, CHR 0x9A, CHR 0x84,
      CHR 0xE7, CHR 0xA9, CHR 0xBA, CHR 0xE9, CHR 0x97, CHR 0xB2, CHR 0xE8, CHR 0xB5, CHR 0x84,
      CHR 0xE6, CHR 0xBA, CHR 0x90, CHR 0xEF, CHR 0xBC, CHR 0x8C, CHR 0xE8, CHR 0xAF, CHR 0xB7,
      CHR 0xE5, CHR 0xB0, CHR 0x9D, CHR 0xE8, CHR 0xAF, CHR 0x95, CHR 0xE8, CHR 0xB0, CHR 0x83,
      CHR 0xE6, CHR 0x95, CHR 0xB4, CHR 0xE9, CHR 0x9C, CHR 0x80, CHR 0xE6, CHR 0xB1, CHR 0x82,
      CHR 0xE3, CHR 0x80, CHR 0x82]"

definition msg_update_done :: string where
  \<comment> \<open>"the reservation has been updated"\<close>
  "msg_update_done =
     [CHR 0xE9, CHR 0xA2, CHR 0x84, CHR 0xE7, CHR 0xBA, CHR 0xA6, CHR 0xE5, CHR 0xB7, CHR 0xB2,
      CHR 0xE6, CHR 0x9B, CHR 0xB4, CHR 0xE6, CHR 0x96, CHR 0xB0, CHR 0xE5, CHR 0xAE, CHR 0x8C,
      CHR 0xE6, CHR 0x88, CHR 0x90, CHR 0xE3, CHR 0x80, CHR 0x82]"

definition msg_update_failed :: string where
  \<comment> \<open>"the reservation update failed, retry later or start a new request"\<close>
  "msg_update_failed =
     [CHR 0xE9, CHR 0xA2, CHR 0x84, CHR 0xE7, CHR 0xBA, CHR 0xA6, CHR 0xE6, CHR 0x9B, CHR 0xB4,
      CHR 0xE6, CHR 0x96, CHR 0xB0, CHR 0xE5, CHR 0xA4, CHR 0xB1, CHR 0xE8, CHR 0xB4, CHR 0xA5,
      CHR 0xEF, CHR 0xBC, CHR 0x8C, CHR 0xE8, CHR 0xAF, CHR 0xB7, CHR 0xE7, CHR 0xA8, CHR 0x8D,
      CHR 0xE5, CHR 0x90, CHR 0x8E, CHR 0xE9, CHR 0x87, CHR 0x8D, CHR 0xE8, CHR 0xAF, CHR 0x95,
      CHR 0xE6, CHR 0x88, CHR 0x96, CHR 0xE9, CHR 0x87, CHR 0x8D, CHR 0xE6, CHR 0x96, CHR 0xB0,
      CHR 0xE5, CHR 0x8F, CHR 0x91, CHR 0xE8, CHR 0xB5, CHR 0xB7, CHR 0xE8, CHR 0xAF, CHR 0xB7,
      CHR 0xE6, CHR 0xB1, CHR 0x82, CHR 0xE3, CHR 0x80, CHR 0x82]"

section \<open>Appending to the timeline\<close>

definition appendMessage :: "ChatMessage \<Rightarrow> ChatWidget \<Rightarrow> ChatWidget" where
  "appendMessage message s =
     s\<lparr>messages := messages s @ [message],
       hasUnread := (if m_role message = Assistant \<and> \<not> isOpen s then True else hasUnread s)\<rparr>"

text \<open>
  The message literal every status report builds: a fresh id, role \<open>system\<close>, the
  current time, type \<open>status\<close>.
\<close>

definition appendStatus :: "string \<Rightarrow> ChatWidget \<Rightarrow> ChatWidget" where
  "appendStatus text s =
     appendMessage
       \<lparr>m_id = Uuid (uuid_drawn s), m_role = System, m_content = JText text,
        m_createdAt = clock s, m_type = Some Status\<rparr>
       (s\<lparr>uuid_drawn := Suc (uuid_drawn s)\<rparr>)"

section \<open>\<^verbatim>\<open>handleToolEvent\<close>\<close>

text \<open>
  The proposal literal built from \<open>proposalRaw\<close>; \<open>None\<close> when one of the \<^verbatim>\<open>String\<close>
  conversions throws.
\<close>

definition buildProposal :: "json \<Rightarrow> ReservationProposal option" where
  "buildProposal proposalRaw =
     do {
       rid \<leftarrow> string_or_empty (js_get proposalRaw ''resource_id'');
       st \<leftarrow> string_or_empty (js_get proposalRaw ''start_time'');
       et \<leftarrow> string_if_truthy (js_get proposalRaw ''end_time'');
       resid \<leftarrow> string_if_truthy (js_get proposalRaw ''reservation_id'');
       nt \<leftarrow> string_if_truthy (js_get proposalRaw ''note'');
       Some \<lparr>resource_id = rid, start_time = st, end_time = et,
             reservation_id = resid, note_text = nt\<rparr>
     }"

text \<open>\<^verbatim>\<open>event.output ?? {}\<close>.\<close>

definition outputOrEmpty :: "ToolEventPayload \<Rightarrow> json" where
  "outputOrEmpty event =
     (case tool_output event of None \<Rightarrow> JObj [] | Some JNull \<Rightarrow> JObj [] | Some v \<Rightarrow> v)"

definition isAvailable :: "json \<Rightarrow> bool" where
  "isAvailable out =
     (if js_is_object out \<and> js_in ''available'' out
      then js_truthy_opt (js_get out ''available'') else False)"

text \<open>\<^verbatim>\<open>output.proposal ?? output\<close>.\<close>

definition proposalRawOf :: "json \<Rightarrow> json" where
  "proposalRawOf out =
     (case js_get out ''proposal'' of None \<Rightarrow> out | Some JNull \<Rightarrow> out | Some v \<Rightarrow> v)"

text \<open>
  The constant \<open>proposal\<close>: the literal when \<open>proposalRaw\<close> is an object, else
  \<open>null\<close> (the inner \<open>None\<close>); the outer \<open>None\<close> is the thrown error.
\<close>

definition proposalOf :: "json \<Rightarrow> ReservationProposal option option" where
  "proposalOf proposalRaw =
     (if js_truthy proposalRaw \<and> js_is_object proposalRaw
      then map_option Some (buildProposal proposalRaw) else Some None)"

text \<open>
  The branch for \<^verbatim>\<open>check_device_availability\<close>. \<open>None\<close> is an exception leaving the
  handler; it is thrown while the proposal literal is built, before any state is
  written.
\<close>

definition handleAvailability :: "ToolEventPayload \<Rightarrow> ChatWidget \<Rightarrow> ChatWidget option" where
  "handleAvailability event s =
     (let out = outputOrEmpty event in
      if isAvailable out then
        (let proposalRaw = proposalRawOf out in
         case proposalOf proposalRaw of
           None \<Rightarrow> None
         | Some proposal \<Rightarrow>
             (case proposal of
                Some p \<Rightarrow>
                  if resource_id p \<noteq> [] \<and> start_time p \<noteq> []
                  then Some (s\<lparr>queuedProposalRef := Some p, pendingProposal := None\<rparr>)
                  else Some (appendStatus msg_format_error
                               (s\<lparr>queuedProposalRef := None, pendingProposal := None\<rparr>))
              | None \<Rightarrow>
                  Some (appendStatus msg_format_error
                          (s\<lparr>queuedProposalRef := None, pendingProposal := None\<rparr>))))
      else
        (let reason = js_string_or_null (js_get out ''reason'') in
         Some (appendStatus (case reason of Some r \<Rightarrow> r | None \<Rightarrow> msg_no_resource)
                 (s\<lparr>queuedProposalRef := None, pendingProposal := None\<rparr>))))"

definition updateSuccess :: "json \<Rightarrow> bool" where
  "updateSuccess out =
     (if js_is_object out \<and> js_in ''success'' out
      then js_truthy_opt (js_get out ''success'') else False)"

text \<open>The branch for \<^verbatim>\<open>update_reservation_status\<close>.\<close>

definition handleUpdate :: "ToolEventPayload \<Rightarrow> ChatWidget \<Rightarrow> ChatWidget" where
  "handleUpdate event s =
     (let out = outputOrEmpty event;
          success = updateSuccess out;
          reason = js_string_or_null (js_get out ''reason'')
      in if success
         then appendStatus msg_update_done
                (s\<lparr>queuedProposalRef := None, pendingProposal := None\<rparr>)
         else appendStatus (case reason of Some r \<Rightarrow> r | None \<Rightarrow> msg_update_failed)
                (s\<lparr>queuedProposalRef := None\<rparr>))"

definition handleToolEvent :: "ToolEventPayload \<Rightarrow> ChatWidget \<Rightarrow> ChatWidget option" where
  "handleToolEvent event s =
     do {
       s1 \<leftarrow> (if tool_name event = ''check_device_availability''
              then handleAvailability event s else Some s);
       if tool_name event = ''update_reservation_status''
       then Some (handleUpdate event s1) else Some s1
     }"

section \<open>\<^verbatim>\<open>JSON.parse\<close>\<close>

text \<open>
  The parser of the platform, in two passes over the text: a scanner that cuts the
  line into tokens, and a push-down recogniser for the grammar of values. Both are
  primitive recursions over their input, so the parser is total. \<open>None\<close> is the
  \<open>SyntaxError\<close> the parser throws.
\<close>

datatype token =
    TLBrace | TRBrace | TLBrack | TRBrack | TColon | TComma
  | TString string
  | TWord string

text \<open>
  One element of a string literal: a byte copied from the text, or the code unit that
  an escape \<^verbatim>\<open>\uXXXX\<close> names.
\<close>

datatype strunit = Raw char | Esc nat

definition utf8 :: "nat \<Rightarrow> string" where
  "utf8 n =
     (if n < 0x80 then [char_of n]
      else if n < 0x800 then [char_of (0xC0 + n div 0x40), char_of (0x80 + n mod 0x40)]
      else if n < 0x10000 then
        [char_of (0xE0 + n div 0x1000), char_of (0x80 + (n div 0x40) mod 0x40),
         char_of (0x80 + n mod 0x40)]
      else
        [char_of (0xF0 + n div 0x40000), char_of (0x80 + (n div 0x1000) mod 0x40),
         char_of (0x80 + (n div 0x40) mod 0x40), char_of (0x80 + n mod 0x40)])"

text \<open>
  The bytes of a string literal. An escaped high surrogate directly followed by an
  escaped low surrogate is one code point; a surrogate on its own is written in the
  three-byte form of its code unit.
\<close>

fun encode_units :: "strunit list \<Rightarrow> string" where
  "encode_units [] = []"
| "encode_units (Raw c # us) = c # encode_units us"
| "encode_units (Esc hi # Esc lo # us) =
     (if 0xD800 \<le> hi \<and> hi < 0xDC00 \<and> 0xDC00 \<le> lo \<and> lo < 0xE000
      then utf8 (0x10000 + (hi - 0xD800) * 0x400 + (lo - 0xDC00)) @ encode_units us
      else utf8 hi @ encode_units (Esc lo # us))"
| "encode_units (Esc u # us) = utf8 u @ encode_units us"

definition hex_digit :: "char \<Rightarrow> nat option" where
  "hex_digit c =
     (let n = (of_char c :: nat) in
      if 0x30 \<le> n \<and> n \<le> 0x39 then Some (n - 0x30)
      else if 0x41 \<le> n \<and> n \<le> 0x46 then Some (n - 0x37)
      else if 0x61 \<le> n \<and> n \<le> 0x66 then Some (n - 0x57)
      else None)"

definition json_ws :: "char \<Rightarrow> bool" where
  "json_ws c = (c = CHR '' '' \<or> c = CHR 0x09 \<or> c = CHR 0x0A \<or> c = CHR 0x0D)"

definition punct :: "char \<Rightarrow> token option" where
  "punct c =
     (if c = CHR ''{'' then Some TLBrace else if c = CHR ''}'' then Some TRBrace
      else if c = CHR ''['' then Some TLBrack else if c = CHR '']'' then Some TRBrack
      else if c = CHR '':'' then Some TColon else if c = CHR '','' then Some TComma
      else None)"

text \<open>The characters a number or one of \<^verbatim>\<open>true\<close>, \<^verbatim>\<open>false\<close>, \<^verbatim>\<open>null\<close> is written with.\<close>

definition word_char :: "char \<Rightarrow> bool" where
  "word_char c =
     (let n = (of_char c :: nat) in
      (0x30 \<le> n \<and> n \<le> 0x39) \<or> (0x41 \<le> n \<and> n \<le> 0x5A) \<or> (0x61 \<le> n \<and> n \<le> 0x7A)
      \<or> c = CHR ''+'' \<or> c = CHR ''-'' \<or> c = CHR ''.'')"

definition simple_escape :: "char \<Rightarrow> char option" where
  "simple_escape c =
     (if c = CHR 0x22 then Some (CHR 0x22) else if c = CHR 0x5C then Some (CHR 0x5C)
      else if c = CHR ''/'' then Some (CHR ''/'') else if c = CHR ''b'' then Some (CHR 0x08)
      else if c = CHR ''f'' then Some (CHR 0x0C) else if c = CHR ''n'' then Some (CHR 0x0A)
      else if c = CHR ''r'' then Some (CHR 0x0D) else if c = CHR ''t'' then Some (CHR 0x09)
      else None)"

datatype scan =
    Idle
  | InWord string
  | InString "strunit list"
  | InEscape "strunit list"
  | InUnicode "strunit list" "nat list"

text \<open>
  The scanner. Accumulators are kept in reverse. A word ends at the first character
  that cannot belong to it; that character is then read as in the idle state.
\<close>

fun scan_tokens :: "scan \<Rightarrow> string \<Rightarrow> token list option" where
  "scan_tokens Idle [] = Some []"
| "scan_tokens (InWord w) [] = Some [TWord (rev w)]"
| "scan_tokens (InString acc) [] = None"
| "scan_tokens (InEscape acc) [] = None"
| "scan_tokens (InUnicode acc ds) [] = None"
| "scan_tokens Idle (c # cs) =
     (if json_ws c then scan_tokens Idle cs
      else if c = CHR 0x22 then scan_tokens (InString []) cs
      else if word_char c then scan_tokens (InWord [c]) cs
      else (case punct c of None \<Rightarrow> None
            | Some t \<Rightarrow> map_option ((#) t) (scan_tokens Idle cs)))"
| "scan_tokens (InWord w) (c # cs) =
     (if word_char c then scan_tokens (InWord (c # w)) cs
      else if json_ws c then map_option ((#) (TWord (rev w))) (scan_tokens Idle cs)
      else if c = CHR 0x22 then map_option ((#) (TWord (rev w))) (scan_tokens (InString []) cs)
      else (case punct c of None \<Rightarrow> None
            | Some t \<Rightarrow> map_option (\<lambda>ts. TWord (rev w) # t # ts) (scan_tokens Idle cs)))"
| "scan_tokens (InString acc) (c # cs) =
     (if c = CHR 0x22 then map_option ((#) (TString (encode_units (rev acc)))) (scan_tokens Idle cs)
      else if c = CHR 0x5C then scan_tokens (InEscape acc) cs
      else if (of_char c :: nat) < 0x20 then None
      else scan_tokens (InString (Raw c # acc)) cs)"
| "scan_tokens (InEscape acc) (c # cs) =
     (if c = CHR ''u'' then scan_tokens (InUnicode acc []) cs
      else (case simple_escape c of None \<Rightarrow> None
            | Some e \<Rightarrow> scan_tokens (InString (Raw e # acc)) cs))"
| "scan_tokens (InUnicode acc ds) (c # cs) =
     (case hex_digit c of None \<Rightarrow> None
      | Some d \<Rightarrow>
          (case ds of
             [d3, d2, d1] \<Rightarrow>
               scan_tokens (InString (Esc (((d1 * 16 + d2) * 16 + d3) * 16 + d) # acc)) cs
           | _ \<Rightarrow> scan_tokens (InUnicode acc (d # ds)) cs))"

text \<open>The grammar of a number literal, as an automaton over its characters.\<close>

datatype numstate =
  NStart | NMinus | NZero | NInt | NPoint | NFrac | NExpMark | NExpSign | NExp | NBad

definition is_digit :: "char \<Rightarrow> bool" where
  "is_digit c = (0x30 \<le> (of_char c :: nat) \<and> (of_char c :: nat) \<le> 0x39)"

fun num_step :: "numstate \<Rightarrow> char \<Rightarrow> numstate" where
  "num_step NStart c =
     (if c = CHR ''-'' then NMinus else if c = CHR ''0'' then NZero
      else if is_digit c then NInt else NBad)"
| "num_step NMinus c = (if c = CHR ''0'' then NZero else if is_digit c then NInt else NBad)"
| "num_step NZero c =
     (if c = CHR ''.'' then NPoint else if c = CHR ''e'' \<or> c = CHR ''E'' then NExpMark else NBad)"
| "num_step NInt c =
     (if is_digit c then NInt else if c = CHR ''.'' then NPoint
      else if c = CHR ''e'' \<or> c = CHR ''E'' then NExpMark else NBad)"
| "num_step NPoint c = (if is_digit c then NFrac else NBad)"
| "num_step NFrac c =
     (if is_digit c then NFrac else if c = CHR ''e'' \<or> c = CHR ''E'' then NExpMark else NBad)"
| "num_step NExpMark c =
     (if c = CHR ''+'' \<or> c = CHR ''-'' then NExpSign else if is_digit c then NExp else NBad)"
| "num_step NExpSign c = (if is_digit c then NExp else NBad)"
| "num_step NExp c = (if is_digit c then NExp else NBad)"
| "num_step NBad c = NBad"

definition is_number :: "string \<Rightarrow> bool" where
  "is_number w = (foldl num_step NStart w \<in> {NZero, NInt, NFrac, NExp})"

text \<open>The value a word denotes.\<close>

definition word_value :: "numerics \<Rightarrow> string \<Rightarrow> json option" where
  "word_value num w =
     (if w = ''true'' then Some (JBool True) else if w = ''false'' then Some (JBool False)
      else if w = ''null'' then Some JNull
      else if is_number w then Some (JNum (literal_value num w)) else None)"

datatype frame =
    FArr "json list"
  | FObj "(string \<times> json) list" "string option"

datatype pmode = MValue | MValueOrClose | MKey | MKeyOrClose | MColon | MAfter | MDone json

text \<open>
  A finished value goes to the innermost open container, or is the result. A member
  whose key is already present replaces the earlier value.
\<close>

fun push_value :: "json \<Rightarrow> frame list \<Rightarrow> (pmode \<times> frame list) option" where
  "push_value v [] = Some (MDone v, [])"
| "push_value v (FArr es # st) = Some (MAfter, FArr (v # es) # st)"
| "push_value v (FObj ms (Some k) # st) = Some (MAfter, FObj (AList.update k v ms) None # st)"
| "push_value v (FObj ms None # st) = None"

fun begin_value :: "numerics \<Rightarrow> token \<Rightarrow> frame list \<Rightarrow> (pmode \<times> frame list) option" where
  "begin_value num (TString s) st = push_value (JStr s) st"
| "begin_value num (TWord w) st =
     (case word_value num w of None \<Rightarrow> None | Some v \<Rightarrow> push_value v st)"
| "begin_value num TLBrack st = Some (MValueOrClose, FArr [] # st)"
| "begin_value num TLBrace st = Some (MKeyOrClose, FObj [] None # st)"
| "begin_value num _ st = None"

fun close_array :: "frame list \<Rightarrow> (pmode \<times> frame list) option" where
  "close_array (FArr es # st) = push_value (JArr (rev es)) st"
| "close_array _ = None"

fun close_object :: "frame list \<Rightarrow> (pmode \<times> frame list) option" where
  "close_object (FObj ms None # st) = push_value (JObj ms) st"
| "close_object _ = None"

fun read_key :: "token \<Rightarrow> frame list \<Rightarrow> (pmode \<times> frame list) option" where
  "read_key (TString k) (FObj ms None # st) = Some (MColon, FObj ms (Some k) # st)"
| "read_key _ _ = None"

fun parse_step :: "numerics \<Rightarrow> pmode \<Rightarrow> frame list \<Rightarrow> token \<Rightarrow> (pmode \<times> frame list) option" where
  "parse_step num MValue st t = begin_value num t st"
| "parse_step num MValueOrClose st t =
     (if t = TRBrack then close_array st else begin_value num t st)"
| "parse_step num MKey st t = read_key t st"
| "parse_step num MKeyOrClose st t = (if t = TRBrace then close_object st else read_key t st)"
| "parse_step num MColon st t = (if t = TColon then Some (MValue, st) else None)"
| "parse_step num MAfter st t =
     (if t = TComma then
        (case st of FArr es # st' \<Rightarrow> Some (MValue, st)
         | FObj ms k # st' \<Rightarrow> Some (MKey, st)
         | [] \<Rightarrow> None)
      else if t = TRBrack then close_array st
      else if t = TRBrace then close_object st
      else None)"
| "parse_step num (MDone v) st t = None"

fun parse_tokens :: "numerics \<Rightarrow> pmode \<times> frame list \<Rightarrow> token list \<Rightarrow> json option" where
  "parse_tokens num (m, st) [] = (case m of MDone v \<Rightarrow> Some v | _ \<Rightarrow> None)"
| "parse_tokens num (m, st) (t # ts) =
     (case parse_step num m st t of None \<Rightarrow> None | Some c \<Rightarrow> parse_tokens num c ts)"

definition JSON_parse :: "numerics \<Rightarrow> string \<Rightarrow> json option" where
  "JSON_parse num line =
     (case scan_tokens Idle line of None \<Rightarrow> None
      | Some ts \<Rightarrow> parse_tokens num (MValue, []) ts)"

section \<open>Reading the stream\<close>

subsection \<open>\<^verbatim>\<open>split\<close> and \<^verbatim>\<open>trim\<close>\<close>

text \<open>\<^verbatim>\<open>text.split('\n')\<close>: the pieces between line feeds, one more than there are line feeds.\<close>

fun split_nl :: "string \<Rightarrow> string list" where
  "split_nl [] = [[]]"
| "split_nl (c # cs) =
     (if c = CHR 0x0A then [] # split_nl cs
      else (case split_nl cs of l # ls \<Rightarrow> (c # l) # ls | [] \<Rightarrow> [[c]]))"

text \<open>
  The white space and line terminators that \<^verbatim>\<open>trim\<close> removes, by the length of their
  UTF-8 form: the six ASCII ones; U+00A0; U+1680, U+2000 to U+200A, U+2028, U+2029,
  U+202F, U+205F, U+3000 and U+FEFF.
\<close>

definition ws1 :: "char \<Rightarrow> bool" where
  "ws1 a = (a = CHR 0x09 \<or> a = CHR 0x0A \<or> a = CHR 0x0B \<or> a = CHR 0x0C \<or> a = CHR 0x0D
            \<or> a = CHR 0x20)"

definition ws2 :: "char \<Rightarrow> char \<Rightarrow> bool" where
  "ws2 a b = (a = CHR 0xC2 \<and> b = CHR 0xA0)"

definition ws3 :: "char \<Rightarrow> char \<Rightarrow> char \<Rightarrow> bool" where
  "ws3 a b c =
     ((a = CHR 0xE1 \<and> b = CHR 0x9A \<and> c = CHR 0x80)
      \<or> (a = CHR 0xE2 \<and> b = CHR 0x80
          \<and> ((0x80 \<le> (of_char c :: nat) \<and> (of_char c :: nat) \<le> 0x8A)
              \<or> c = CHR 0xA8 \<or> c = CHR 0xA9 \<or> c = CHR 0xAF))
      \<or> (a = CHR 0xE2 \<and> b = CHR 0x81 \<and> c = CHR 0x9F)
      \<or> (a = CHR 0xE3 \<and> b = CHR 0x80 \<and> c = CHR 0x80)
      \<or> (a = CHR 0xEF \<and> b = CHR 0xBB \<and> c = CHR 0xBF))"

fun trimStart :: "string \<Rightarrow> string" where
  "trimStart (a # b # c # cs) =
     (if ws1 a then trimStart (b # c # cs)
      else if ws2 a b then trimStart (c # cs)
      else if ws3 a b c then trimStart cs
      else a # b # c # cs)"
| "trimStart [a, b] = (if ws1 a then trimStart [b] else if ws2 a b then [] else [a, b])"
| "trimStart [a] = (if ws1 a then [] else [a])"
| "trimStart [] = []"

text \<open>The same from the end, on the reversed text.\<close>

fun trimStartRev :: "string \<Rightarrow> string" where
  "trimStartRev (a # b # c # cs) =
     (if ws1 a then trimStartRev (b # c # cs)
      else if ws2 b a then trimStartRev (c # cs)
      else if ws3 c b a then trimStartRev cs
      else a # b # c # cs)"
| "trimStartRev [a, b] = (if ws1 a then trimStartRev [b] else if ws2 b a then [] else [a, b])"
| "trimStartRev [a] = (if ws1 a then [] else [a])"
| "trimStartRev [] = []"

definition trim :: "string \<Rightarrow> string" where
  "trim s = rev (trimStartRev (rev (trimStart s)))"

subsection \<open>The variables of one call of \<^verbatim>\<open>streamAssistantResponse\<close>\<close>

record StreamCtx =
  assistantMessageId :: "MessageId option"
  assembledContent :: jsvalue
  widget :: ChatWidget

definition updateMessageContent :: "MessageId \<Rightarrow> jsvalue \<Rightarrow> ChatWidget \<Rightarrow> ChatWidget" where
  "updateMessageContent i c s =
     s\<lparr>messages := map (\<lambda>msg. if m_id msg = i then msg\<lparr>m_content := c\<rparr> else msg) (messages s)\<rparr>"

definition ensureAssistantMessage :: "jsvalue \<Rightarrow> StreamCtx \<Rightarrow> StreamCtx" where
  "ensureAssistantMessage c ctx =
     (case assistantMessageId ctx of
        None \<Rightarrow>
          (let s = widget ctx; i = Uuid (uuid_drawn s) in
           ctx\<lparr>assistantMessageId := Some i,
               widget :=
                 appendMessage
                   \<lparr>m_id = i, m_role = Assistant, m_content = c, m_createdAt = clock s,
                    m_type = Some Text\<rparr>
                   (s\<lparr>uuid_drawn := Suc (uuid_drawn s), activeAssistantMessageId := Some i\<rparr>)\<rparr>)
      | Some i \<Rightarrow> ctx\<lparr>widget := updateMessageContent i c (widget ctx)\<rparr>)"

definition flushQueuedProposal :: "ChatWidget \<Rightarrow> ChatWidget" where
  "flushQueuedProposal s =
     (case queuedProposalRef s of
        Some p \<Rightarrow> s\<lparr>pendingProposal := Some p, queuedProposalRef := None\<rparr>
      | None \<Rightarrow> s)"

subsection \<open>\<^verbatim>\<open>processLine\<close>\<close>

text \<open>
  The cast of a parsed value to \<^verbatim>\<open>StreamEvent\<close>, read off the tests of
  \<^verbatim>\<open>processLine\<close>. The result is \<open>None\<close> where no branch runs: \<open>type\<close> is none of the
  four names, or the value is \<open>null\<close> and reading \<open>type\<close> throws. Nothing is tested on
  \<open>content\<close>: a \<open>token\<close> or a \<open>message\<close> carries whatever the record has there,
  \<open>undefined\<close> when it has nothing. A \<open>tool\<close> record whose \<open>tool_name\<close> is not a
  string matches neither tool, so nothing runs for it.
\<close>

definition decodeEvent :: "json \<Rightarrow> StreamEvent option" where
  "decodeEvent j =
     (case js_get j ''type'' of
        Some (JStr t) \<Rightarrow>
          if t = ''token'' then Some (Token (js_get j ''content''))
          else if t = ''message'' then Some (Message (js_get j ''content''))
          else if t = ''tool'' then
            (case js_get j ''tool_name'' of
               Some (JStr n) \<Rightarrow> Some (Tool \<lparr>tool_name = n, tool_output = js_get j ''output''\<rparr>)
             | _ \<Rightarrow> None)
          else if t = ''done'' then Some Done
          else None
      | _ \<Rightarrow> None)"

text \<open>
  The four branches of \<^verbatim>\<open>processLine\<close>. \<open>None\<close> is an exception: the \<open>TypeError\<close> of
  \<^verbatim>\<open>assembledContent += event.content\<close>, or one leaving \<^verbatim>\<open>handleToolEvent\<close>.
\<close>

fun dispatchEvent :: "numerics \<Rightarrow> StreamEvent \<Rightarrow> StreamCtx \<Rightarrow> StreamCtx option" where
  "dispatchEvent num (Token c) ctx =
     (case js_plus num (assembledContent ctx) c of
        None \<Rightarrow> None
      | Some a \<Rightarrow>
          (let ctx' = ctx\<lparr>assembledContent := a\<rparr> in
           Some (if js_truthy_opt (assembledContent ctx')
                 then ensureAssistantMessage (assembledContent ctx') ctx'
                 else ctx')))"
| "dispatchEvent num (Message c) ctx =
     (let ctx' = ensureAssistantMessage c (ctx\<lparr>assembledContent := c\<rparr>) in
      Some (ctx'\<lparr>widget := flushQueuedProposal (widget ctx')\<rparr>))"
| "dispatchEvent num (Tool event) ctx =
     map_option (\<lambda>s. ctx\<lparr>widget := s\<rparr>) (handleToolEvent event (widget ctx))"
| "dispatchEvent num Done ctx = Some (ctx\<lparr>widget := flushQueuedProposal (widget ctx)\<rparr>)"

text \<open>
  Every exception of the body is caught and logged; each is thrown before the body
  has written anything, so the state is then what it was.
\<close>

definition processEvent :: "numerics \<Rightarrow> StreamEvent \<Rightarrow> StreamCtx \<Rightarrow> StreamCtx" where
  "processEvent num event ctx =
     (case dispatchEvent num event ctx of None \<Rightarrow> ctx | Some ctx' \<Rightarrow> ctx')"

definition processLine :: "numerics \<Rightarrow> string \<Rightarrow> StreamCtx \<Rightarrow> StreamCtx" where
  "processLine num line ctx =
     (if line = [] then ctx
      else case JSON_parse num line of
             None \<Rightarrow> ctx
           | Some j \<Rightarrow>
               (case decodeEvent j of
                  None \<Rightarrow> ctx
                | Some event \<Rightarrow> processEvent num event ctx))"

subsection \<open>The reading loop\<close>

text \<open>
  One turn of the \<^verbatim>\<open>while\<close> loop on a chunk \<open>v\<close>: the decoded chunk joins the buffer,
  the buffer is split, its last piece stays behind, and every other piece is trimmed
  and, unless empty, handed to \<open>pl\<close>. The pair is the buffer and the state \<open>pl\<close> works
  on. The decoder keeps the bytes of an unfinished character for the next chunk;
  with text held as bytes they wait in the buffer instead.
\<close>

definition readChunk :: "(string \<Rightarrow> 'c \<Rightarrow> 'c) \<Rightarrow> string \<Rightarrow> string \<times> 'c \<Rightarrow> string \<times> 'c" where
  "readChunk pl v bc =
     (let lines = split_nl (fst bc @ v) in
      (last lines,
       fold (\<lambda>rawLine c. let line = trim rawLine in if line \<noteq> [] then pl line c else c)
         (butlast lines) (snd bc)))"

text \<open>After the loop: what is left in the buffer is trimmed and, unless empty, processed.\<close>

definition readRemaining :: "(string \<Rightarrow> 'c \<Rightarrow> 'c) \<Rightarrow> string \<times> 'c \<Rightarrow> 'c" where
  "readRemaining pl bc =
     (let remaining = trim (fst bc) in if remaining \<noteq> [] then pl remaining (snd bc) else snd bc)"

definition readLines :: "(string \<Rightarrow> 'c \<Rightarrow> 'c) \<Rightarrow> string list \<Rightarrow> 'c \<Rightarrow> 'c" where
  "readLines pl chunks c = readRemaining pl (fold (readChunk pl) chunks ([], c))"

text \<open>
  The body of \<^verbatim>\<open>streamAssistantResponse\<close> from the reader on, for a response whose body
  arrives as \<open>chunks\<close> and then ends.
\<close>

definition readStream :: "numerics \<Rightarrow> string list \<Rightarrow> StreamCtx \<Rightarrow> StreamCtx" where
  "readStream num chunks ctx =
     (let ctx' = readLines (processLine num) chunks ctx in
      ctx'\<lparr>widget := flushQueuedProposal (widget ctx')\<rparr>)"

section \<open>The whole of \<^verbatim>\<open>streamAssistantResponse\<close>\<close>

definition msg_suggestion_cancelled :: string where
  \<comment> \<open>"this reservation suggestion was cancelled, ask again if needed"\<close>
  "msg_suggestion_cancelled =
     [CHR 0xE5, CHR 0xB7, CHR 0xB2, CHR 0xE5, CHR 0x8F, CHR 0x96, CHR 0xE6, CHR 0xB6, CHR 0x88,
      CHR 0xE6, CHR 0x9C, CHR 0xAC, CHR 0xE6, CHR 0xAC, CHR 0xA1, CHR 0xE9, CHR 0xA2, CHR 0x84,
      CHR 0xE7, CHR 0xBA, CHR 0xA6, CHR 0xE5, CHR 0xBB, CHR 0xBA, CHR 0xE8, CHR 0xAE, CHR 0xAE,
      CHR 0xEF, CHR 0xBC, CHR 0x8C, CHR 0xE8, CHR 0x8B, CHR 0xA5, CHR 0xE9, CHR 0x9C, CHR 0x80,
      CHR 0xE8, CHR 0xA6, CHR 0x81, CHR 0xE5, CHR 0x8F, CHR 0xAF, CHR 0xE9, CHR 0x87, CHR 0x8D,
      CHR 0xE6, CHR 0x96, CHR 0xB0, CHR 0xE8, CHR 0xAF, CHR 0xA2, CHR 0xE9, CHR 0x97, CHR 0xAE,
      CHR 0xE3, CHR 0x80, CHR 0x82]"

definition msg_missing_start_time :: string where
  \<comment> \<open>"the reservation time is missing, the reservation cannot be submitted"\<close>
  "msg_missing_start_time =
     [CHR 0xE7, CHR 0xBC, CHR 0xBA, CHR 0xE5, CHR 0xB0, CHR 0x91, CHR 0xE9, CHR 0xA2, CHR 0x84,
      CHR 0xE7, CHR 0xBA, CHR 0xA6, CHR 0xE6, CHR 0x97, CHR 0xB6, CHR 0xE9, CHR 0x97, CHR 0xB4,
      CHR 0xEF, CHR 0xBC, CHR 0x8C, CHR 0xE6, CHR 0x9A, CHR 0x82, CHR 0xE6, CHR 0x97, CHR 0xA0,
      CHR 0xE6, CHR 0xB3, CHR 0x95, CHR 0xE6, CHR 0x8F, CHR 0x90, CHR 0xE4, CHR 0xBA, CHR 0xA4,
      CHR 0xE9, CHR 0xA2, CHR 0x84, CHR 0xE7, CHR 0xBA, CHR 0xA6, CHR 0xE3, CHR 0x80, CHR 0x82]"

definition msg_op_failed :: string where
  \<comment> \<open>"operation failed (", before the status code\<close>
  "msg_op_failed =
     [CHR 0xE6, CHR 0x93, CHR 0x8D, CHR 0xE4, CHR 0xBD, CHR 0x9C, CHR 0xE5, CHR 0xA4, CHR 0xB1,
      CHR 0xE8, CHR 0xB4, CHR 0xA5, CHR 0x20, CHR 0x28]"

definition msg_op_incomplete :: string where
  \<comment> \<open>"operation not completed:", before the message of the error\<close>
  "msg_op_incomplete =
     [CHR 0xE6, CHR 0x93, CHR 0x8D, CHR 0xE4, CHR 0xBD, CHR 0x9C, CHR 0xE6, CHR 0x9C, CHR 0xAA,
      CHR 0xE5, CHR 0xAE, CHR 0x8C, CHR 0xE6, CHR 0x88, CHR 0x90, CHR 0xEF, CHR 0xBC, CHR 0x9A]"

definition msg_op_unknown_error :: string where
  \<comment> \<open>"operation not completed, an unknown error occurred"\<close>
  "msg_op_unknown_error =
     [CHR 0xE6, CHR 0x93, CHR 0x8D, CHR 0xE4, CHR 0xBD, CHR 0x9C, CHR 0xE6, CHR 0x9C, CHR 0xAA,
      CHR 0xE5, CHR 0xAE, CHR 0x8C, CHR 0xE6, CHR 0x88, CHR 0x90, CHR 0xEF, CHR 0xBC, CHR 0x8C,
      CHR 0xE5, CHR 0x8F, CHR 0x91, CHR 0xE7, CHR 0x94, CHR 0x9F, CHR 0xE6, CHR 0x9C, CHR 0xAA,
      CHR 0xE7, CHR 0x9F, CHR 0xA5, CHR 0xE9, CHR 0x94, CHR 0x99, CHR 0xE8, CHR 0xAF, CHR 0xAF,
      CHR 0xE3, CHR 0x80, CHR 0x82]"

definition msg_fallback :: string where
  \<comment> \<open>"sorry, something went wrong while handling the request, try again later"\<close>
  "msg_fallback =
     [CHR 0xE6, CHR 0x8A, CHR 0xB1, CHR 0xE6, CHR 0xAD, CHR 0x89, CHR 0xEF, CHR 0xBC, CHR 0x8C,
      CHR 0xE5, CHR 0xA4, CHR 0x84, CHR 0xE7, CHR 0x90, CHR 0x86, CHR 0xE8, CHR 0xAF, CHR 0xB7,
      CHR 0xE6, CHR 0xB1, CHR 0x82, CHR 0xE6, CHR 0x97, CHR 0xB6, CHR 0xE5, CHR 0x87, CHR 0xBA,
      CHR 0xE7, CHR 0x8E, CHR 0xB0, CHR 0xE9, CHR 0x97, CHR 0xAE, CHR 0xE9, CHR 0xA2, CHR 0x98,
      CHR 0xEF, CHR 0xBC, CHR 0x8C, CHR 0xE8, CHR 0xAF, CHR 0xB7, CHR 0xE7, CHR 0xA8, CHR 0x8D,
      CHR 0xE5, CHR 0x90, CHR 0x8E, CHR 0xE5, CHR 0x86, CHR 0x8D, CHR 0xE8, CHR 0xAF, CHR 0x95,
      CHR 0xE3, CHR 0x80, CHR 0x82]"

definition msg_error_info :: string where
  \<comment> \<open>"error message: ", before the message of the error\<close>
  "msg_error_info =
     [CHR 0xE9, CHR 0x94, CHR 0x99, CHR 0xE8, CHR 0xAF, CHR 0xAF, CHR 0xE4, CHR 0xBF, CHR 0xA1,
      CHR 0xE6, CHR 0x81, CHR 0xAF, CHR 0x3A, CHR 0x20]"

definition msg_unknown_error :: string where
  \<comment> \<open>"unknown error"\<close>
  "msg_unknown_error =
     [CHR 0xE6, CHR 0x9C, CHR 0xAA, CHR 0xE7, CHR 0x9F, CHR 0xA5, CHR 0xE9, CHR 0x94, CHR 0x99,
      CHR 0xE8, CHR 0xAF, CHR 0xAF]"

definition msg_request_failed :: string where
  \<comment> \<open>"request failed (", before the status code\<close>
  "msg_request_failed =
     [CHR 0xE8, CHR 0xAF, CHR 0xB7, CHR 0xE6, CHR 0xB1, CHR 0x82, CHR 0xE5, CHR 0xA4, CHR 0xB1,
      CHR 0xE8, CHR 0xB4, CHR 0xA5, CHR 0x20, CHR 0x28]"

definition msg_no_body :: string where
  \<comment> \<open>"the server returned no content"\<close>
  "msg_no_body =
     [CHR 0xE6, CHR 0x9C, CHR 0x8D, CHR 0xE5, CHR 0x8A, CHR 0xA1, CHR 0xE5, CHR 0x99, CHR 0xA8,
      CHR 0xE6, CHR 0x9C, CHR 0xAA, CHR 0xE8, CHR 0xBF, CHR 0x94, CHR 0xE5, CHR 0x9B, CHR 0x9E,
      CHR 0xE5, CHR 0x86, CHR 0x85, CHR 0xE5, CHR 0xAE, CHR 0xB9]"

text \<open>The decimal digits of a status code, as a template literal prints it.\<close>

fun show_nat :: "nat \<Rightarrow> string" where
  "show_nat n =
     (if n < 10 then [char_of (48 + n)]
      else show_nat (n div 10) @ [char_of (48 + n mod 10)])"

declare show_nat.simps [simp del]

text \<open>
  What a \<^verbatim>\<open>catch\<close> clause may receive: an \<^verbatim>\<open>Error\<close> with its message, the
  \<^verbatim>\<open>AbortError\<close> of a cancelled request, or a value that is no \<^verbatim>\<open>Error\<close>.
\<close>

datatype Thrown = ErrorObject string | AbortError | OtherValue

text \<open>\<^verbatim>\<open>response.ok\<close>.\<close>

definition response_ok :: "nat \<Rightarrow> bool" where
  "response_ok status = (200 \<le> status \<and> status \<le> 299)"

text \<open>
  What the network gives to one call: \<^verbatim>\<open>fetch\<close> rejects, or a response arrives with
  its status and, if it has a body, the chunks the reader delivers, ended either by
  the end of the stream or by a rejected \<^verbatim>\<open>read\<close>.
\<close>

datatype StreamResponse =
    StreamRejected Thrown
  | StreamResponded nat "(string list \<times> Thrown option) option"

definition streamAssistantResponse :: "numerics \<Rightarrow> StreamResponse \<Rightarrow> ChatWidget \<Rightarrow> ChatWidget" where
  "streamAssistantResponse num response s =
     (let ctx0 = \<lparr>assistantMessageId = None, assembledContent = JText [],
                  widget = s\<lparr>isStreaming := True, activeAssistantMessageId := None\<rparr>\<rparr>;
          tried =
            (case response of
               StreamRejected t \<Rightarrow> (ctx0, Some t)
             | StreamResponded status body \<Rightarrow>
                 if \<not> response_ok status
                 then (ctx0, Some (ErrorObject (msg_request_failed @ show_nat status @ '')'')))
                 else (case body of
                         None \<Rightarrow> (ctx0, Some (ErrorObject msg_no_body))
                       | Some (chunks, None) \<Rightarrow> (readStream num chunks ctx0, None)
                       | Some (chunks, Some t) \<Rightarrow>
                           (snd (fold (readChunk (processLine num)) chunks ([], ctx0)), Some t)));
          caught =
            (case snd tried of
               None \<Rightarrow> fst tried
             | Some AbortError \<Rightarrow> fst tried
             | Some t \<Rightarrow>
                 (let ctx1 = ensureAssistantMessage (JText msg_fallback) (fst tried) in
                  ctx1\<lparr>widget :=
                         appendStatus
                           (case t of ErrorObject m \<Rightarrow> msg_error_info @ m | _ \<Rightarrow> msg_unknown_error)
                           (widget ctx1)\<rparr>))
      in (widget caught)\<lparr>isStreaming := False, activeAssistantMessageId := None\<rparr>)"

section \<open>\<^verbatim>\<open>handleReservationDecision\<close>\<close>

text \<open>The body of the request: \<^verbatim>\<open>session_id\<close>, \<^verbatim>\<open>action\<close>, and the field the action adds.\<close>

record DecisionPayload =
  session_id :: string
  action :: ReservationDecisionAction
  payload_start_time :: "string option"
  payload_reservation_id :: "string option"

text \<open>\<^verbatim>\<open>!proposal.reservation_id\<close>: the field is missing or the empty string.\<close>

definition no_reservation_id :: "ReservationProposal \<Rightarrow> bool" where
  "no_reservation_id p = (case reservation_id p of None \<Rightarrow> True | Some r \<Rightarrow> r = [])"

text \<open>
  The handler up to its \<^verbatim>\<open>await fetch\<close>: the guard clauses, then the loading flag and
  the payload. The second component is the request that is sent, \<open>None\<close> when the
  handler returns without a network call.
\<close>

definition decisionBegin :: "ReservationDecisionAction \<Rightarrow> ChatWidget \<Rightarrow> ChatWidget \<times> DecisionPayload option" where
  "decisionBegin act s =
     (case pendingProposal s of
        None \<Rightarrow> (s, None)
      | Some p \<Rightarrow>
          if act = Cancel \<and> no_reservation_id p then
            (appendStatus msg_suggestion_cancelled
               (s\<lparr>queuedProposalRef := None, pendingProposal := None\<rparr>), None)
          else if act = Confirm \<and> start_time p = [] then
            (appendStatus msg_missing_start_time (s\<lparr>queuedProposalRef := None\<rparr>), None)
          else
            (s\<lparr>decisionLoading := Some act\<rparr>,
             Some \<lparr>session_id = sessionId s, action = act,
                   payload_start_time = (if act = Confirm then Some (start_time p) else None),
                   payload_reservation_id =
                     (if act = Cancel \<and> \<not> no_reservation_id p then reservation_id p else None)\<rparr>))"

text \<open>
  What the network gives to the request: \<^verbatim>\<open>fetch\<close> rejects, or a response arrives with
  its status and the outcome of \<^verbatim>\<open>response.json()\<close>.
\<close>

datatype DecisionResponse =
    DecisionRejected Thrown
  | DecisionResponded nat "Thrown + json"

text \<open>\<^verbatim>\<open>Boolean(payloadJson?.scheduler?.success)\<close>.\<close>

definition schedulerSuccess :: "json \<Rightarrow> bool" where
  "schedulerSuccess payloadJson =
     js_truthy_opt
       (case js_get payloadJson ''scheduler'' of None \<Rightarrow> None | Some sch \<Rightarrow> js_get sch ''success'')"

text \<open>The \<^verbatim>\<open>try\<close> block after a body was read.\<close>

definition applyDecisionBody :: "json \<Rightarrow> ChatWidget \<Rightarrow> ChatWidget" where
  "applyDecisionBody payloadJson s =
     (let assistantMessage =
            (case js_get payloadJson ''assistant_message'' of Some (JStr m) \<Rightarrow> m | _ \<Rightarrow> []);
          schedulerReason =
            js_string_or_null
              (case js_get payloadJson ''scheduler'' of None \<Rightarrow> None
               | Some sch \<Rightarrow> js_get sch ''reason'');
          s1 = (if assistantMessage \<noteq> []
                then appendMessage
                       \<lparr>m_id = Uuid (uuid_drawn s), m_role = Assistant,
                        m_content = JText assistantMessage, m_createdAt = clock s,
                        m_type = Some Text\<rparr>
                       (s\<lparr>uuid_drawn := Suc (uuid_drawn s)\<rparr>)
                else s)
      in if schedulerSuccess payloadJson then s1\<lparr>queuedProposalRef := None, pendingProposal := None\<rparr>
         else (case schedulerReason of
                 Some r \<Rightarrow> if r \<noteq> [] then appendStatus r s1 else s1
               | None \<Rightarrow> s1))"

definition decisionCatch :: "Thrown \<Rightarrow> ChatWidget \<Rightarrow> ChatWidget" where
  "decisionCatch t s =
     appendStatus (case t of ErrorObject m \<Rightarrow> msg_op_incomplete @ m | _ \<Rightarrow> msg_op_unknown_error) s"

text \<open>
  The handler from the answer of \<^verbatim>\<open>fetch\<close> on: \<^verbatim>\<open>try\<close>, \<^verbatim>\<open>catch\<close> and \<^verbatim>\<open>finally\<close>, applied
  to the state the widget has when the answer arrives.
\<close>

definition decisionSettle :: "ReservationDecisionAction \<Rightarrow> DecisionResponse \<Rightarrow> ChatWidget \<Rightarrow> ChatWidget" where
  "decisionSettle act response s =
     (let s1 =
            (case response of
               DecisionRejected t \<Rightarrow> decisionCatch t s
             | DecisionResponded status body \<Rightarrow>
                 if \<not> response_ok status
                 then decisionCatch (ErrorObject (msg_op_failed @ show_nat status @ '')'')) s
                 else (case body of
                         Inl t \<Rightarrow> decisionCatch t s
                       | Inr payloadJson \<Rightarrow> applyDecisionBody payloadJson s));
          s2 = s1\<lparr>decisionLoading := None\<rparr>
      in if act = Cancel then s2\<lparr>pendingProposal := None, queuedProposalRef := None\<rparr> else s2)"

text \<open>One call of the handler with nothing else happening while it waits.\<close>

definition handleReservationDecision :: "ReservationDecisionAction \<Rightarrow> DecisionResponse \<Rightarrow> ChatWidget \<Rightarrow> ChatWidget" where
  "handleReservationDecision act response s =
     (case decisionBegin act s of
        (s1, None) \<Rightarrow> s1
      | (s1, Some request) \<Rightarrow> decisionSettle act response s1)"

text \<open>
  A click on one of the two buttons of the reservation card. The card is rendered in
  the open panel while a proposal is pending; the button of an action is disabled
  while \<open>decisionLoading\<close> is that action.
\<close>

definition clickDecision :: "ReservationDecisionAction \<Rightarrow> ChatWidget \<Rightarrow> ChatWidget \<times> DecisionPayload option" where
  "clickDecision act s =
     (if isOpen s \<and> pendingProposal s \<noteq> None \<and> decisionLoading s \<noteq> Some act
      then decisionBegin act s else (s, None))"

section \<open>States and values used in the examples\<close>

text \<open>The widget right after mounting, with the panel open and an empty timeline.\<close>

definition widget0 :: ChatWidget where
  "widget0 = \<lparr>isOpen = True, hasUnread = False, messages = [], isStreaming = False,
      activeAssistantMessageId = None, sessionId = ''session-1'',
      pendingProposal = None, decisionLoading = None, queuedProposalRef = None,
      uuid_drawn = 0, clock = 0\<rparr>"

definition proposal0 :: ReservationProposal where
  "proposal0 = \<lparr>resource_id = ''device-001'', start_time = ''2025-09-25T02:00:00+00:00'',
      end_time = None, reservation_id = None, note_text = None\<rparr>"

text \<open>A proposal for a reservation the scheduler already holds.\<close>

definition proposal1 :: ReservationProposal where
  "proposal1 = \<lparr>resource_id = ''device-001'', start_time = ''2025-09-25T02:00:00+00:00'',
      end_time = None, reservation_id = Some ''r-42'', note_text = None\<rparr>"

definition update_failed_event :: ToolEventPayload where
  "update_failed_event =
     \<lparr>tool_name = ''update_reservation_status'',
      tool_output = Some (JObj [(''success'', JBool False), (''reason'', JStr ''slot taken'')])\<rparr>"

text \<open>
  The one answer on which the \<^verbatim>\<open>try\<close> block of the decision handler reaches its
  \<^verbatim>\<open>setPendingProposal(null)\<close>: a success status and a body whose scheduler outcome is
  truthy. Every other answer is a failed request: \<^verbatim>\<open>fetch\<close> rejected, a non-success
  status, an unreadable body, or a scheduler outcome that is not a success.
\<close>

definition decisionSucceeded :: "DecisionResponse \<Rightarrow> bool" where
  "decisionSucceeded response =
     (case response of
        DecisionResponded status (Inr payloadJson) \<Rightarrow>
          response_ok status \<and> schedulerSuccess payloadJson
      | _ \<Rightarrow> False)"

text \<open>The variables of a call of \<^verbatim>\<open>streamAssistantResponse\<close> that has just begun.\<close>

definition stream0 :: StreamCtx where
  "stream0 = \<lparr>assistantMessageId = None, assembledContent = JText [], widget = widget0\<rparr>"

text \<open>The same after \<^verbatim>\<open>processUserMessage\<close> has put the user's message on the timeline.\<close>

definition stream1 :: StreamCtx where
  "stream1 =
     \<lparr>assistantMessageId = None, assembledContent = JText [],
      widget = widget0\<lparr>messages := [\<lparr>m_id = Uuid 0, m_role = User, m_content = JText ''hello'',
                                       m_createdAt = 0, m_type = Some Text\<rparr>],
                         uuid_drawn := 1, isStreaming := True\<rparr>\<rparr>"

text \<open>An availability result that offers the resource \<open>rid\<close> from the time \<open>st\<close> on.\<close>

definition availability_event :: "string \<Rightarrow> string \<Rightarrow> ToolEventPayload" where
  "availability_event rid st =
     \<lparr>tool_name = ''check_device_availability'',
      tool_output = Some (JObj [(''available'', JBool True),
                               (''proposal'', JObj [(''resource_id'', JStr rid),
                                                   (''start_time'', JStr st)])])\<rparr>"

text \<open>
  The arithmetic used in the examples. Their lines hold no number and nothing is
  added to a number in them, so every choice gives the same results.
\<close>

definition literal_text :: numerics where
  "literal_text = \<lparr>literal_value = (\<lambda>lexeme. lexeme), number_sum = (\<lambda>a b. ''NaN'')\<rparr>"

text \<open>A line processor that only records the lines it is handed, in order.\<close>

definition collectLine :: "string \<Rightarrow> string list \<Rightarrow> string list" where
  "collectLine line seen = seen @ [line]"

text \<open>The two Chinese texts of the scenario: "you" (polite) and "received".\<close>

definition text_nin :: string where
  "text_nin = [CHR 0xE6, CHR 0x82, CHR 0xA8]"

definition text_shoudao :: string where
  "text_shoudao = [CHR 0xE6, CHR 0x94, CHR 0xB6, CHR 0xE5, CHR 0x88, CHR 0xB0]"

text \<open>The two chunks of the scenario, and the three lines their concatenation holds.\<close>

definition scenario_chunk1 :: string where
  \<open>scenario_chunk1 =
     ''{"type":"token","content":"'' @ text_nin @ ''"}'' @ [CHR 0x0A] @ ''{"type":"token"''\<close>

definition scenario_chunk2 :: string where
  \<open>scenario_chunk2 =
     ''":"message","content":"'' @ text_shoudao @ ''"}'' @ [CHR 0x0A] @ ''{"type":"done"}''
     @ [CHR 0x0A]\<close>

definition scenario_line1 :: string where
  \<open>scenario_line1 = ''{"type":"token","content":"'' @ text_nin @ ''"}''\<close>

definition scenario_line2 :: string where
  \<open>scenario_line2 = ''{"type":"token"":"message","content":"'' @ text_shoudao @ ''"}''\<close>

definition scenario_line3 :: string where
  \<open>scenario_line3 = ''{"type":"done"}''\<close>

text \<open>A tool record on the wire that offers \<open>proposal0\<close>.\<close>

definition tool_line :: string where
  \<open>tool_line =
     ''{"type":"tool","tool_name":"check_device_availability","output":{"available":true,''
     @ ''"proposal":{"resource_id":"device-001","start_time":"2025-09-25T02:00:00+00:00"}}}''\<close>

text \<open>A message record on the wire that carries no content.\<close>

definition bare_message_line :: string where
  \<open>bare_message_line = ''{"type":"message"}''\<close>

section \<open>Notions used in the statements\<close>

text \<open>At most one proposal is alive: nothing is queued, or nothing is pending.\<close>

definition atMostOneLive :: "ChatWidget \<Rightarrow> bool" where
  "atMostOneLive s = (queuedProposalRef s = None \<or> pendingProposal s = None)"

text \<open>
  The tests an availability result passes on its way to
  \<^verbatim>\<open>queuedProposalRef.current = proposal\<close>: the tool name, \<open>isAvailable\<close>, a proposal
  literal that was built, and its two non-empty fields.
\<close>

definition qualifying :: "ToolEventPayload \<Rightarrow> ReservationProposal \<Rightarrow> bool" where
  "qualifying event p =
     (tool_name event = ''check_device_availability''
      \<and> isAvailable (outputOrEmpty event)
      \<and> proposalOf (proposalRawOf (outputOrEmpty event)) = Some (Some p)
      \<and> resource_id p \<noteq> [] \<and> start_time p \<noteq> [])"

definition complete :: "ReservationProposal \<Rightarrow> bool" where
  "complete p = (resource_id p \<noteq> [] \<and> start_time p \<noteq> [])"

definition proposalsComplete :: "ChatWidget \<Rightarrow> bool" where
  "proposalsComplete s =
     ((case queuedProposalRef s of None \<Rightarrow> True | Some p \<Rightarrow> complete p)
      \<and> (case pendingProposal s of None \<Rightarrow> True | Some p \<Rightarrow> complete p))"

text \<open>
  \<^verbatim>\<open>crypto.randomUUID()\<close> never repeats a value: the ids on the timeline differ from
  each other, and each \<open>Uuid k\<close> among them has been drawn already.
\<close>

definition id_below :: "nat \<Rightarrow> MessageId \<Rightarrow> bool" where
  "id_below n i = (case i of Welcome \<Rightarrow> True | Uuid k \<Rightarrow> k < n)"

definition timelineFresh :: "ChatWidget \<Rightarrow> bool" where
  "timelineFresh s =
     (distinct (map m_id (messages s))
      \<and> (\<forall>m\<in>set (messages s). id_below (uuid_drawn s) (m_id m)))"

text \<open>
  Inside a stream: the timeline is fresh, and if the stream has created its assistant
  turn, a message with the id of that turn is on the timeline and is an assistant
  message.
\<close>

definition turnOpen :: "StreamCtx \<Rightarrow> bool" where
  "turnOpen ctx =
     (timelineFresh (widget ctx)
      \<and> (case assistantMessageId ctx of
           None \<Rightarrow> True
         | Some i \<Rightarrow> \<exists>m\<in>set (messages (widget ctx)). m_id m = i \<and> m_role m = Assistant))"

text \<open>
  What can happen to the widget while a response is being read, one at a time and in
  any order: a line reaches \<^verbatim>\<open>processLine\<close>; the stream ends and the queued proposal
  is flushed; the user clicks a button of the reservation card; the answer to a
  decision request arrives.
\<close>

datatype Happening =
    Line string
  | StreamEnd
  | Click ReservationDecisionAction
  | Answer ReservationDecisionAction DecisionResponse

fun happen :: "numerics \<Rightarrow> Happening \<Rightarrow> StreamCtx \<Rightarrow> StreamCtx" where
  "happen num (Line line) ctx = processLine num line ctx"
| "happen num StreamEnd ctx = ctx\<lparr>widget := flushQueuedProposal (widget ctx)\<rparr>"
| "happen num (Click act) ctx = ctx\<lparr>widget := fst (clickDecision act (widget ctx))\<rparr>"
| "happen num (Answer act response) ctx = ctx\<lparr>widget := decisionSettle act response (widget ctx)\<rparr>"

section \<open>Properties\<close>

text \<open>
  C10. A tool event whose tool name is neither \<^verbatim>\<open>check_device_availability\<close> nor
  \<^verbatim>\<open>update_reservation_status\<close> is ignored: the handler returns normally and the
  whole state of the widget, so the timeline, the queued proposal and the pending
  proposal, is what it was; no status message is appended.
\<close>

theorem handleToolEvent_other_tool_ignored:
  assumes "tool_name event \<noteq> ''check_device_availability''"
      and "tool_name event \<noteq> ''update_reservation_status''"
  shows "handleToolEvent event s = Some s"
  using assms by (simp add: handleToolEvent_def)

theorem handleToolEvent_other_tool_ignored_witness:
  "handleToolEvent \<lparr>tool_name = ''get_weather'', tool_output = Some (JObj [(''success'', JBool False)])\<rparr>
     \<lparr>isOpen = True, hasUnread = False, messages = [], isStreaming = True,
      activeAssistantMessageId = None, sessionId = ''s'',
      pendingProposal = Some \<lparr>resource_id = ''device-001'', start_time = ''t'', end_time = None,
                               reservation_id = None, note_text = None\<rparr>,
      decisionLoading = None, queuedProposalRef = None, uuid_drawn = 0, clock = 0\<rparr>
   = Some \<lparr>isOpen = True, hasUnread = False, messages = [], isStreaming = True,
      activeAssistantMessageId = None, sessionId = ''s'',
      pendingProposal = Some \<lparr>resource_id = ''device-001'', start_time = ''t'', end_time = None,
                               reservation_id = None, note_text = None\<rparr>,
      decisionLoading = None, queuedProposalRef = None, uuid_drawn = 0, clock = 0\<rparr>"
  by (rule handleToolEvent_other_tool_ignored) simp_all

subsection \<open>The decision handler\<close>

lemma appendMessage_fields [simp]:
  "messages (appendMessage m s) = messages s @ [m]"
  "pendingProposal (appendMessage m s) = pendingProposal s"
  "queuedProposalRef (appendMessage m s) = queuedProposalRef s"
  "decisionLoading (appendMessage m s) = decisionLoading s"
  "uuid_drawn (appendMessage m s) = uuid_drawn s"
  "clock (appendMessage m s) = clock s"
  "isOpen (appendMessage m s) = isOpen s"
  "sessionId (appendMessage m s) = sessionId s"
  by (simp_all add: appendMessage_def)

lemma appendStatus_fields [simp]:
  "messages (appendStatus t s) =
     messages s @ [\<lparr>m_id = Uuid (uuid_drawn s), m_role = System, m_content = JText t,
                     m_createdAt = clock s, m_type = Some Status\<rparr>]"
  "pendingProposal (appendStatus t s) = pendingProposal s"
  "queuedProposalRef (appendStatus t s) = queuedProposalRef s"
  "decisionLoading (appendStatus t s) = decisionLoading s"
  "uuid_drawn (appendStatus t s) = Suc (uuid_drawn s)"
  "clock (appendStatus t s) = clock s"
  "isOpen (appendStatus t s) = isOpen s"
  "sessionId (appendStatus t s) = sessionId s"
  by (simp_all add: appendStatus_def)

text \<open>
  C7. A cancel on a pending proposal that has no \<open>reservation_id\<close> sends no request:
  the handler returns at its first guard, whatever the network would have answered.
  Afterwards the pending and the queued proposal are both cleared, and the timeline
  is the old one with exactly one status message appended.
\<close>

theorem cancel_without_reservation_id:
  assumes "pendingProposal s = Some p" and "reservation_id p = None"
  shows "snd (decisionBegin Cancel s) = None
       \<and> handleReservationDecision Cancel response s = fst (decisionBegin Cancel s)
       \<and> pendingProposal (fst (decisionBegin Cancel s)) = None
       \<and> queuedProposalRef (fst (decisionBegin Cancel s)) = None
       \<and> messages (fst (decisionBegin Cancel s)) =
           messages s @ [\<lparr>m_id = Uuid (uuid_drawn s), m_role = System,
                           m_content = JText msg_suggestion_cancelled, m_createdAt = clock s,
                           m_type = Some Status\<rparr>]"
  using assms
  by (simp add: decisionBegin_def handleReservationDecision_def no_reservation_id_def)

theorem cancel_without_reservation_id_witness:
  "snd (decisionBegin Cancel (widget0\<lparr>pendingProposal := Some proposal0\<rparr>)) = None
   \<and> pendingProposal (fst (decisionBegin Cancel (widget0\<lparr>pendingProposal := Some proposal0\<rparr>))) = None
   \<and> queuedProposalRef (fst (decisionBegin Cancel (widget0\<lparr>pendingProposal := Some proposal0\<rparr>))) = None
   \<and> length (messages (fst (decisionBegin Cancel (widget0\<lparr>pendingProposal := Some proposal0\<rparr>)))) = 1"
  using cancel_without_reservation_id [of "widget0\<lparr>pendingProposal := Some proposal0\<rparr>" proposal0]
  by (simp add: widget0_def proposal0_def)

subsection \<open>A failed status update\<close>

text \<open>
  C2, as stated, fails: a failed \<^verbatim>\<open>update_reservation_status\<close> leaves a pending
  proposal where it is. The handler clears the queued proposal only.
\<close>

theorem update_failure_counterexample:
  "map_option pendingProposal
     (handleToolEvent update_failed_event (widget0\<lparr>pendingProposal := Some proposal0\<rparr>))
   = Some (Some proposal0)"
  by (simp add: handleToolEvent_def handleUpdate_def update_failed_event_def widget0_def
      outputOrEmpty_def updateSuccess_def js_truthy_opt_def)

text \<open>
  C2, amended. For every \<^verbatim>\<open>update_reservation_status\<close> tool event whose output does not
  report success, the handler returns normally, the queued proposal becomes none, the
  pending proposal is left as it was, and exactly one status message is appended: it
  carries the reason when the output has a string \<open>reason\<close>, and the generic retry
  text otherwise.
\<close>

theorem update_failure_clears_queue_only:
  assumes "tool_name event = ''update_reservation_status''"
      and "\<not> updateSuccess (outputOrEmpty event)"
  shows "handleToolEvent event s = Some (handleUpdate event s)
       \<and> queuedProposalRef (handleUpdate event s) = None
       \<and> pendingProposal (handleUpdate event s) = pendingProposal s
       \<and> messages (handleUpdate event s) =
           messages s @
             [\<lparr>m_id = Uuid (uuid_drawn s), m_role = System,
               m_content =
                 JText (case js_string_or_null (js_get (outputOrEmpty event) ''reason'') of
                          Some r \<Rightarrow> r | None \<Rightarrow> msg_update_failed),
               m_createdAt = clock s, m_type = Some Status\<rparr>]"
  using assms by (simp add: handleToolEvent_def handleUpdate_def)

theorem update_failure_clears_queue_only_witness:
  "handleToolEvent update_failed_event
     (widget0\<lparr>pendingProposal := Some proposal0, queuedProposalRef := Some proposal1\<rparr>)
   = Some (handleUpdate update_failed_event
       (widget0\<lparr>pendingProposal := Some proposal0, queuedProposalRef := Some proposal1\<rparr>))
   \<and> queuedProposalRef (handleUpdate update_failed_event
       (widget0\<lparr>pendingProposal := Some proposal0, queuedProposalRef := Some proposal1\<rparr>)) = None
   \<and> pendingProposal (handleUpdate update_failed_event
       (widget0\<lparr>pendingProposal := Some proposal0, queuedProposalRef := Some proposal1\<rparr>))
       = Some proposal0
   \<and> map m_content (messages (handleUpdate update_failed_event
       (widget0\<lparr>pendingProposal := Some proposal0, queuedProposalRef := Some proposal1\<rparr>)))
       = [JText ''slot taken'']"
  using update_failure_clears_queue_only
    [of update_failed_event "widget0\<lparr>pendingProposal := Some proposal0, queuedProposalRef := Some proposal1\<rparr>"]
  by (simp add: update_failed_event_def widget0_def outputOrEmpty_def updateSuccess_def
      js_truthy_opt_def)

subsection \<open>A failed decision request\<close>

text \<open>
  C1, as stated, fails: after a confirm that the server answers with status 500, and
  after one answered with a scheduler outcome \<open>success: false\<close>, the proposal is
  still pending.
\<close>

theorem failed_confirm_counterexample:
  "pendingProposal
     (handleReservationDecision Confirm (DecisionResponded 500 (Inr JNull))
        (widget0\<lparr>pendingProposal := Some proposal0\<rparr>))
   = Some proposal0
   \<and> pendingProposal
     (handleReservationDecision Confirm
        (DecisionResponded 200 (Inr (JObj [(''scheduler'', JObj [(''success'', JBool False)])])))
        (widget0\<lparr>pendingProposal := Some proposal0\<rparr>))
   = Some proposal0"
  by (simp add: handleReservationDecision_def decisionBegin_def decisionSettle_def
      decisionCatch_def response_ok_def widget0_def proposal0_def applyDecisionBody_def
      schedulerSuccess_def js_truthy_opt_def)

lemma applyDecisionBody_failed:
  "\<not> schedulerSuccess j \<Longrightarrow>
     pendingProposal (applyDecisionBody j s) = pendingProposal s
   \<and> queuedProposalRef (applyDecisionBody j s) = queuedProposalRef s"
  by (simp add: applyDecisionBody_def Let_def split: option.splits)

lemma decisionCatch_fields [simp]:
  "pendingProposal (decisionCatch t s) = pendingProposal s"
  "queuedProposalRef (decisionCatch t s) = queuedProposalRef s"
  by (simp_all add: decisionCatch_def)

lemma decisionSettle_confirm_failed:
  "\<not> decisionSucceeded response \<Longrightarrow>
     pendingProposal (decisionSettle Confirm response s) = pendingProposal s
   \<and> queuedProposalRef (decisionSettle Confirm response s) = queuedProposalRef s
   \<and> decisionLoading (decisionSettle Confirm response s) = None"
  by (auto simp: decisionSettle_def decisionSucceeded_def Let_def applyDecisionBody_failed
      split: DecisionResponse.splits sum.splits)

lemma decisionSettle_cancel:
  "pendingProposal (decisionSettle Cancel response s) = None
   \<and> queuedProposalRef (decisionSettle Cancel response s) = None"
  by (simp add: decisionSettle_def Let_def)

text \<open>
  C1, amended. For every confirm on a pending proposal with a start time whose
  request fails (a non-success status, a scheduler outcome that is not a success, or
  no readable answer at all), a request was sent, and afterwards the proposal is
  still pending, the queued proposal is what it was, and the loading flag is
  cleared. Only a cancel clears the proposal state whatever the answer: after it the
  pending and the queued proposal are both none.
\<close>

theorem failed_confirm_keeps_proposal:
  assumes "pendingProposal s = Some p"
      and "\<not> decisionSucceeded response"
  shows "(start_time p \<noteq> [] \<longrightarrow>
            snd (decisionBegin Confirm s) \<noteq> None
          \<and> pendingProposal (handleReservationDecision Confirm response s) = Some p
          \<and> queuedProposalRef (handleReservationDecision Confirm response s) = queuedProposalRef s
          \<and> decisionLoading (handleReservationDecision Confirm response s) = None)
       \<and> pendingProposal (handleReservationDecision Cancel response s) = None
       \<and> queuedProposalRef (handleReservationDecision Cancel response s) = None"
  using assms
  by (simp add: handleReservationDecision_def decisionBegin_def decisionSettle_confirm_failed
      decisionSettle_cancel)

theorem failed_confirm_keeps_proposal_witness:
  "\<not> decisionSucceeded (DecisionResponded 500 (Inr JNull))
   \<and> start_time proposal1 \<noteq> []
   \<and> snd (decisionBegin Confirm (widget0\<lparr>pendingProposal := Some proposal1\<rparr>)) \<noteq> None
   \<and> pendingProposal
       (handleReservationDecision Confirm (DecisionResponded 500 (Inr JNull))
          (widget0\<lparr>pendingProposal := Some proposal1\<rparr>)) = Some proposal1
   \<and> pendingProposal
       (handleReservationDecision Cancel (DecisionResponded 500 (Inr JNull))
          (widget0\<lparr>pendingProposal := Some proposal1\<rparr>)) = None"
  using failed_confirm_keeps_proposal
    [of "widget0\<lparr>pendingProposal := Some proposal1\<rparr>" proposal1 "DecisionResponded 500 (Inr JNull)"]
  by (simp add: widget0_def proposal1_def decisionSucceeded_def response_ok_def)

subsection \<open>Decisions in flight\<close>




subsection \<open>Stream events and the timeline\<close>

lemma js_plus_text: "js_plus num (JText a) (JText b) = Some (JText (a @ b))"
  by (simp add: js_plus_def)

lemma processEvent_Token:
  "processEvent num (Token c) ctx =
     (case js_plus num (assembledContent ctx) c of
        None \<Rightarrow> ctx
      | Some a \<Rightarrow>
          if js_truthy_opt a then ensureAssistantMessage a (ctx\<lparr>assembledContent := a\<rparr>)
          else ctx\<lparr>assembledContent := a\<rparr>)"
  by (simp add: processEvent_def Let_def split: option.splits)

lemma timelineFresh_append:
  assumes "timelineFresh s" and "messages s' = messages s @ [m]"
      and "m_id m = Uuid (uuid_drawn s)" and "uuid_drawn s' = Suc (uuid_drawn s)"
  shows "timelineFresh s'"
proof -
  have old: "id_below (uuid_drawn s) (m_id x)" if "x \<in> set (messages s)" for x
    using assms(1) that by (simp add: timelineFresh_def)
  have notin: "Uuid (uuid_drawn s) \<notin> m_id ` set (messages s)"
  proof
    assume "Uuid (uuid_drawn s) \<in> m_id ` set (messages s)"
    then obtain x where "x \<in> set (messages s)" "m_id x = Uuid (uuid_drawn s)"
      by auto
    with old [of x] show False by (simp add: id_below_def)
  qed
  have mono: "id_below (Suc (uuid_drawn s)) i" if "id_below (uuid_drawn s) i" for i
    using that by (cases i) (simp_all add: id_below_def)
  have new: "id_below (Suc (uuid_drawn s)) (m_id m)"
    using assms(3) by (simp add: id_below_def)
  have "distinct (map m_id (messages s'))"
    using assms(1,2,3) notin by (simp add: timelineFresh_def)
  moreover have "\<forall>x\<in>set (messages s'). id_below (uuid_drawn s') (m_id x)"
    using assms(2,4) old mono new by auto
  ultimately show ?thesis by (simp add: timelineFresh_def)
qed

lemma timelineFresh_same_ids:
  assumes "timelineFresh s" and "map m_id (messages s') = map m_id (messages s)"
      and "uuid_drawn s' = uuid_drawn s"
  shows "timelineFresh s'"
proof -
  have "set (map m_id (messages s')) = set (map m_id (messages s))"
    using assms(2) by simp
  then have ids: "m_id ` set (messages s') = m_id ` set (messages s)"
    by simp
  have "id_below (uuid_drawn s') (m_id x)" if "x \<in> set (messages s')" for x
  proof -
    from that ids obtain y where "y \<in> set (messages s)" "m_id y = m_id x"
      by (metis image_iff)
    with assms(1,3) show ?thesis by (auto simp: timelineFresh_def)
  qed
  moreover have "distinct (map m_id (messages s'))"
    using assms(1,2) by (simp add: timelineFresh_def)
  ultimately show ?thesis by (simp add: timelineFresh_def)
qed

lemma one_with_id:
  "distinct (map m_id msgs) \<Longrightarrow> m \<in> set msgs \<Longrightarrow>
     length (filter (\<lambda>x. m_id x = m_id m) msgs) = 1"
proof (induction msgs)
  case Nil
  then show ?case by simp
next
  case (Cons x xs)
  show ?case
  proof (cases "m_id x = m_id m")
    case True
    with Cons.prems(1) have "\<forall>y\<in>set xs. m_id y \<noteq> m_id m"
      by (auto simp: image_iff)
    then have "filter (\<lambda>y. m_id y = m_id m) xs = []"
      by (simp add: filter_empty_conv)
    with True show ?thesis by simp
  next
    case False
    with Cons show ?thesis by auto
  qed
qed

text \<open>What a tool event can do to the timeline: nothing, or one status message more.\<close>

lemma handleAvailability_timeline:
  assumes "handleAvailability e s = Some s'"
  shows "(messages s' = messages s \<and> uuid_drawn s' = uuid_drawn s)
       \<or> (\<exists>m. messages s' = messages s @ [m] \<and> m_id m = Uuid (uuid_drawn s)
              \<and> uuid_drawn s' = Suc (uuid_drawn s))"
  using assms
  by (auto simp: handleAvailability_def Let_def split: if_splits option.splits)

lemma handleUpdate_timeline:
  "\<exists>m. messages (handleUpdate e s) = messages s @ [m] \<and> m_id m = Uuid (uuid_drawn s)
       \<and> uuid_drawn (handleUpdate e s) = Suc (uuid_drawn s)"
  by (simp add: handleUpdate_def Let_def)

lemma handleToolEvent_timeline:
  assumes "handleToolEvent e s = Some s'"
  shows "(messages s' = messages s \<and> uuid_drawn s' = uuid_drawn s)
       \<or> (\<exists>m. messages s' = messages s @ [m] \<and> m_id m = Uuid (uuid_drawn s)
              \<and> uuid_drawn s' = Suc (uuid_drawn s))"
proof (cases "tool_name e = ''check_device_availability''")
  case True
  with assms have "handleAvailability e s = Some s'"
    by (simp add: handleToolEvent_def split: bind_splits if_splits)
  from handleAvailability_timeline [OF this] show ?thesis .
next
  case False
  with assms have "s' = s \<or> s' = handleUpdate e s"
    by (auto simp: handleToolEvent_def split: if_splits)
  with handleUpdate_timeline [of e s] show ?thesis by auto
qed

lemma flushQueuedProposal_timeline [simp]:
  "messages (flushQueuedProposal s) = messages s"
  "uuid_drawn (flushQueuedProposal s) = uuid_drawn s"
  by (simp_all add: flushQueuedProposal_def split: option.splits)

lemma ensureAssistantMessage_turnOpen:
  assumes "turnOpen ctx"
  shows "turnOpen (ensureAssistantMessage c ctx)"
proof (cases "assistantMessageId ctx")
  case None
  let ?s = "widget ctx"
  let ?m = "\<lparr>m_id = Uuid (uuid_drawn ?s), m_role = Assistant, m_content = c,
             m_createdAt = clock ?s, m_type = Some Text\<rparr>"
  have after: "assistantMessageId (ensureAssistantMessage c ctx) = Some (Uuid (uuid_drawn ?s))"
    "messages (widget (ensureAssistantMessage c ctx)) = messages ?s @ [?m]"
    "uuid_drawn (widget (ensureAssistantMessage c ctx)) = Suc (uuid_drawn ?s)"
    using None by (simp_all add: ensureAssistantMessage_def Let_def appendMessage_def)
  have "timelineFresh (widget (ensureAssistantMessage c ctx))"
    by (rule timelineFresh_append [of ?s _ ?m]) (use assms after in \<open>simp_all add: turnOpen_def\<close>)
  with after show ?thesis by (simp add: turnOpen_def)
next
  case (Some i)
  have after: "assistantMessageId (ensureAssistantMessage c ctx) = Some i"
    "messages (widget (ensureAssistantMessage c ctx)) =
       map (\<lambda>msg. if m_id msg = i then msg\<lparr>m_content := c\<rparr> else msg) (messages (widget ctx))"
    "uuid_drawn (widget (ensureAssistantMessage c ctx)) = uuid_drawn (widget ctx)"
    using Some by (simp_all add: ensureAssistantMessage_def updateMessageContent_def)
  have ids: "map m_id (messages (widget (ensureAssistantMessage c ctx))) =
               map m_id (messages (widget ctx))"
    unfolding after(2) by (induction "messages (widget ctx)") auto
  have fresh: "timelineFresh (widget (ensureAssistantMessage c ctx))"
    by (rule timelineFresh_same_ids [of "widget ctx"]) (use assms ids after in \<open>simp_all add: turnOpen_def\<close>)
  from assms Some obtain m where m: "m \<in> set (messages (widget ctx))" "m_id m = i"
      "m_role m = Assistant"
    by (auto simp: turnOpen_def)
  then have "m\<lparr>m_content := c\<rparr> \<in> set (messages (widget (ensureAssistantMessage c ctx)))"
    unfolding after(2) by force
  with m fresh after(1) show ?thesis
    by (auto simp: turnOpen_def intro!: bexI [of _ "m\<lparr>m_content := c\<rparr>"])
qed

lemma turnOpen_widget_same:
  assumes "turnOpen ctx" and "assistantMessageId ctx' = assistantMessageId ctx"
      and "messages (widget ctx') = messages (widget ctx)"
      and "uuid_drawn (widget ctx') = uuid_drawn (widget ctx)"
  shows "turnOpen ctx'"
  using assms by (simp add: turnOpen_def timelineFresh_def split: option.splits)

lemma turnOpen_appended:
  assumes "turnOpen ctx" and "assistantMessageId ctx' = assistantMessageId ctx"
      and "messages (widget ctx') = messages (widget ctx) @ [m]"
      and "m_id m = Uuid (uuid_drawn (widget ctx))"
      and "uuid_drawn (widget ctx') = Suc (uuid_drawn (widget ctx))"
  shows "turnOpen ctx'"
proof -
  have "timelineFresh (widget ctx')"
    by (rule timelineFresh_append [of "widget ctx" _ m]) (use assms in \<open>simp_all add: turnOpen_def\<close>)
  with assms show ?thesis
    by (auto simp: turnOpen_def split: option.splits)
qed

lemma processEvent_turnOpen:
  assumes "turnOpen ctx"
  shows "turnOpen (processEvent num e ctx)"
proof (cases e)
  case (Token c)
  show ?thesis
  proof (cases "js_plus num (assembledContent ctx) c")
    case None
    with Token assms show ?thesis by (simp add: processEvent_Token)
  next
    case (Some a)
    have "turnOpen (ctx\<lparr>assembledContent := a\<rparr>)"
      by (rule turnOpen_widget_same [OF assms]) simp_all
    with Token Some show ?thesis
      by (simp add: processEvent_Token ensureAssistantMessage_turnOpen)
  qed
next
  case (Message c)
  have "turnOpen (ctx\<lparr>assembledContent := c\<rparr>)"
    by (rule turnOpen_widget_same [OF assms]) simp_all
  then have "turnOpen (ensureAssistantMessage c (ctx\<lparr>assembledContent := c\<rparr>))"
    by (rule ensureAssistantMessage_turnOpen)
  then have "turnOpen ((ensureAssistantMessage c (ctx\<lparr>assembledContent := c\<rparr>))
      \<lparr>widget := flushQueuedProposal (widget (ensureAssistantMessage c (ctx\<lparr>assembledContent := c\<rparr>)))\<rparr>)"
    by (rule turnOpen_widget_same) simp_all
  with Message show ?thesis by (simp add: processEvent_def Let_def)
next
  case (Tool ev)
  show ?thesis
  proof (cases "handleToolEvent ev (widget ctx)")
    case None
    with Tool assms show ?thesis by (simp add: processEvent_def)
  next
    case (Some s')
    from handleToolEvent_timeline [OF Some]
    have "turnOpen (ctx\<lparr>widget := s'\<rparr>)"
    proof
      assume "messages s' = messages (widget ctx) \<and> uuid_drawn s' = uuid_drawn (widget ctx)"
      then show ?thesis by (intro turnOpen_widget_same [OF assms]) simp_all
    next
      assume "\<exists>m. messages s' = messages (widget ctx) @ [m]
                \<and> m_id m = Uuid (uuid_drawn (widget ctx))
                \<and> uuid_drawn s' = Suc (uuid_drawn (widget ctx))"
      then obtain m where "messages s' = messages (widget ctx) @ [m]"
        "m_id m = Uuid (uuid_drawn (widget ctx))" "uuid_drawn s' = Suc (uuid_drawn (widget ctx))"
        by blast
      then show ?thesis by (intro turnOpen_appended [OF assms, of _ m]) simp_all
    qed
    with Tool Some show ?thesis by (simp add: processEvent_def)
  qed
next
  case Done
  have "turnOpen (ctx\<lparr>widget := flushQueuedProposal (widget ctx)\<rparr>)"
    by (rule turnOpen_widget_same [OF assms]) simp_all
  with Done show ?thesis by (simp add: processEvent_def)
qed

lemma fold_processEvent_turnOpen:
  "turnOpen ctx \<Longrightarrow> turnOpen (fold (processEvent num) events ctx)"
  by (induction events arbitrary: ctx) (simp_all add: processEvent_turnOpen)

subsection \<open>Tokens\<close>

text \<open>
  C8, as stated, fails: a first token event with empty content creates no assistant
  message. The timeline stays as it is and no assistant message id is set.
\<close>

theorem empty_first_token_counterexample:
  "messages (widget (processEvent literal_text (Token (JText [])) stream1))
     = messages (widget stream1)
   \<and> assistantMessageId (processEvent literal_text (Token (JText [])) stream1) = None"
  by (simp add: processEvent_Token js_plus_text js_truthy_opt_def stream1_def)

text \<open>
  C8, amended. Take any stream: it begins with no assistant turn of its own, on a
  timeline whose ids differ from each other and from the ids still to be drawn, and
  any events have been processed. A token event then adds its content to the
  accumulated text (for two strings, their concatenation); if that addition throws,
  the event changes nothing. If the accumulated text is then empty (falsy), nothing
  but the accumulated text changes. Otherwise, if the stream has not created its
  assistant turn yet, neither by an earlier token nor by a message event, the turn
  is created: one assistant message with a fresh id and the accumulated text is
  appended. If the stream has created its turn, nothing is appended: exactly one
  message of the timeline carries the id of that turn, it is an assistant message,
  and its content, and nothing else, is set to the accumulated text.
\<close>

theorem token_event_in_any_stream:
  assumes "assistantMessageId ctx0 = None" and "timelineFresh (widget ctx0)"
      and "ctx = fold (processEvent num) events ctx0"
  shows "(js_plus num (assembledContent ctx) c = None \<longrightarrow>
            processEvent num (Token c) ctx = ctx)
       \<and> (\<forall>acc t. assembledContent ctx = JText acc \<and> c = JText t \<longrightarrow>
            js_plus num (assembledContent ctx) c = Some (JText (acc @ t)))
       \<and> (\<forall>a. js_plus num (assembledContent ctx) c = Some a \<longrightarrow>
            assembledContent (processEvent num (Token c) ctx) = a
          \<and> (\<not> js_truthy_opt a \<longrightarrow>
                processEvent num (Token c) ctx = ctx\<lparr>assembledContent := a\<rparr>)
          \<and> (js_truthy_opt a \<and> assistantMessageId ctx = None \<longrightarrow>
                assistantMessageId (processEvent num (Token c) ctx)
                  = Some (Uuid (uuid_drawn (widget ctx)))
              \<and> messages (widget (processEvent num (Token c) ctx)) =
                  messages (widget ctx) @
                    [\<lparr>m_id = Uuid (uuid_drawn (widget ctx)), m_role = Assistant,
                      m_content = a, m_createdAt = clock (widget ctx),
                      m_type = Some Text\<rparr>])
          \<and> (\<forall>i. js_truthy_opt a \<and> assistantMessageId ctx = Some i \<longrightarrow>
                assistantMessageId (processEvent num (Token c) ctx) = Some i
              \<and> length (filter (\<lambda>m. m_id m = i) (messages (widget ctx))) = 1
              \<and> (\<forall>m\<in>set (messages (widget ctx)). m_id m = i \<longrightarrow> m_role m = Assistant)
              \<and> messages (widget (processEvent num (Token c) ctx)) =
                  map (\<lambda>m. if m_id m = i then m\<lparr>m_content := a\<rparr> else m)
                    (messages (widget ctx))))"
proof -
  have "turnOpen ctx0"
    using assms(1,2) by (simp add: turnOpen_def)
  then have inv: "turnOpen ctx"
    unfolding assms(3) by (rule fold_processEvent_turnOpen)
  have thrown: "processEvent num (Token c) ctx = ctx"
    if "js_plus num (assembledContent ctx) c = None"
    using that by (simp add: processEvent_Token)
  have texts: "js_plus num (assembledContent ctx) c = Some (JText (acc @ t))"
    if "assembledContent ctx = JText acc \<and> c = JText t" for acc t
    using that by (simp add: js_plus_text)
  have added: "assembledContent (processEvent num (Token c) ctx) = a"
    if "js_plus num (assembledContent ctx) c = Some a" for a
    using that by (simp add: processEvent_Token ensureAssistantMessage_def Let_def
        split: option.splits)
  have empty: "processEvent num (Token c) ctx = ctx\<lparr>assembledContent := a\<rparr>"
    if "js_plus num (assembledContent ctx) c = Some a" and "\<not> js_truthy_opt a" for a
    using that by (simp add: processEvent_Token)
  have created: "assistantMessageId (processEvent num (Token c) ctx)
                  = Some (Uuid (uuid_drawn (widget ctx)))
              \<and> messages (widget (processEvent num (Token c) ctx)) =
                  messages (widget ctx) @
                    [\<lparr>m_id = Uuid (uuid_drawn (widget ctx)), m_role = Assistant,
                      m_content = a, m_createdAt = clock (widget ctx),
                      m_type = Some Text\<rparr>]"
    if "js_plus num (assembledContent ctx) c = Some a"
      and "js_truthy_opt a \<and> assistantMessageId ctx = None" for a
    using that
    by (simp add: processEvent_Token ensureAssistantMessage_def Let_def appendMessage_def)
  have updated: "assistantMessageId (processEvent num (Token c) ctx) = Some i
              \<and> length (filter (\<lambda>m. m_id m = i) (messages (widget ctx))) = 1
              \<and> (\<forall>m\<in>set (messages (widget ctx)). m_id m = i \<longrightarrow> m_role m = Assistant)
              \<and> messages (widget (processEvent num (Token c) ctx)) =
                  map (\<lambda>m. if m_id m = i then m\<lparr>m_content := a\<rparr> else m)
                    (messages (widget ctx))"
    if plus: "js_plus num (assembledContent ctx) c = Some a"
      and opened: "js_truthy_opt a \<and> assistantMessageId ctx = Some i" for a i
  proof -
    from inv opened obtain m where m: "m \<in> set (messages (widget ctx))" "m_id m = i"
        "m_role m = Assistant"
      by (auto simp: turnOpen_def)
    from inv have dist: "distinct (map m_id (messages (widget ctx)))"
      by (simp add: turnOpen_def timelineFresh_def)
    have one: "length (filter (\<lambda>x. m_id x = i) (messages (widget ctx))) = 1"
      using one_with_id [OF dist m(1)] m(2) by simp
    have same: "x = m" if "x \<in> set (messages (widget ctx))" and "m_id x = i" for x
      using dist m that by (metis distinct_map inj_onD)
    from plus opened have
      "assistantMessageId (processEvent num (Token c) ctx) = Some i"
      "messages (widget (processEvent num (Token c) ctx)) =
         map (\<lambda>m. if m_id m = i then m\<lparr>m_content := a\<rparr> else m) (messages (widget ctx))"
      by (simp_all add: processEvent_Token ensureAssistantMessage_def updateMessageContent_def)
    with one same m(3) show ?thesis by blast
  qed
  show ?thesis
    by (intro conjI allI impI) (use thrown texts added empty created updated in \<open>blast+\<close>)
qed

text \<open>
  Two streams on the same timeline. In the first, an empty token and a failed status
  update come before the token \<open>ab\<close>, which creates the turn behind the status
  message. In the second, an empty message event has created the turn, so the token
  \<open>a\<close> only sets its content.
\<close>

theorem token_event_in_any_stream_witness:
  "assistantMessageId stream1 = None \<and> timelineFresh (widget stream1)
   \<and> map (\<lambda>m. (m_id m, m_role m, m_content m))
       (messages (widget (processEvent literal_text (Token (JText ''ab''))
          (fold (processEvent literal_text)
             [Token (JText []), Tool update_failed_event] stream1))))
     = [(Uuid 0, User, JText ''hello''), (Uuid 1, System, JText ''slot taken''),
        (Uuid 2, Assistant, JText ''ab'')]
   \<and> map (\<lambda>m. (m_id m, m_role m, m_content m))
       (messages (widget (processEvent literal_text (Token (JText ''a''))
          (fold (processEvent literal_text)
             [Message (JText []), Tool update_failed_event] stream1))))
     = [(Uuid 0, User, JText ''hello''), (Uuid 1, Assistant, JText ''a''),
        (Uuid 2, System, JText ''slot taken'')]"
proof -
  have h1: "assistantMessageId stream1 = None"
    by (simp add: stream1_def)
  have h2: "timelineFresh (widget stream1)"
    by (simp add: stream1_def widget0_def timelineFresh_def id_below_def)
  let ?A = "fold (processEvent literal_text) [Token (JText []), Tool update_failed_event] stream1"
  let ?B = "fold (processEvent literal_text) [Message (JText []), Tool update_failed_event] stream1"
  have A: "assembledContent ?A = JText []" "assistantMessageId ?A = None"
    "map (\<lambda>m. (m_id m, m_role m, m_content m)) (messages (widget ?A))
       = [(Uuid 0, User, JText ''hello''), (Uuid 1, System, JText ''slot taken'')]"
    "uuid_drawn (widget ?A) = 2"
    by code_simp+
  have B: "assembledContent ?B = JText []" "assistantMessageId ?B = Some (Uuid 1)"
    "messages (widget ?B)
       = [\<lparr>m_id = Uuid 0, m_role = User, m_content = JText ''hello'', m_createdAt = 0,
           m_type = Some Text\<rparr>,
          \<lparr>m_id = Uuid 1, m_role = Assistant, m_content = JText [], m_createdAt = 0,
           m_type = Some Text\<rparr>,
          \<lparr>m_id = Uuid 2, m_role = System, m_content = JText ''slot taken'', m_createdAt = 0,
           m_type = Some Status\<rparr>]"
    by code_simp+
  have plusA: "js_plus literal_text (assembledContent ?A) (JText ''ab'') = Some (JText ''ab'')"
    unfolding A(1) by (simp add: js_plus_text)
  have plusB: "js_plus literal_text (assembledContent ?B) (JText ''a'') = Some (JText ''a'')"
    unfolding B(1) by (simp add: js_plus_text)
  from token_event_in_any_stream
    [OF h1 h2 refl, where num = literal_text and c = "JText ''ab''"
       and events = "[Token (JText []), Tool update_failed_event]"] plusA A
  have first: "map (\<lambda>m. (m_id m, m_role m, m_content m))
       (messages (widget (processEvent literal_text (Token (JText ''ab'')) ?A)))
     = [(Uuid 0, User, JText ''hello''), (Uuid 1, System, JText ''slot taken''),
        (Uuid 2, Assistant, JText ''ab'')]"
    by (simp add: js_truthy_opt_def)
  from token_event_in_any_stream
    [OF h1 h2 refl, where num = literal_text and c = "JText ''a''"
       and events = "[Message (JText []), Tool update_failed_event]"] plusB B
  have second: "map (\<lambda>m. (m_id m, m_role m, m_content m))
       (messages (widget (processEvent literal_text (Token (JText ''a'')) ?B)))
     = [(Uuid 0, User, JText ''hello''), (Uuid 1, Assistant, JText ''a''),
        (Uuid 2, System, JText ''slot taken'')]"
    by (simp add: js_truthy_opt_def)
  from h1 h2 first second show ?thesis by simp
qed

subsection \<open>The two proposal slots\<close>

text \<open>What a tool event can do to the two proposal slots.\<close>

lemma handleAvailability_slots:
  assumes "handleAvailability e s = Some s'"
  shows "(\<exists>p. complete p \<and> queuedProposalRef s' = Some p \<and> pendingProposal s' = None)
       \<or> (queuedProposalRef s' = None \<and> pendingProposal s' = None)"
  using assms
  by (auto simp: handleAvailability_def Let_def complete_def
      split: if_splits option.splits)

lemma handleUpdate_slots:
  "queuedProposalRef (handleUpdate e s) = None
   \<and> (pendingProposal (handleUpdate e s) = None
       \<or> pendingProposal (handleUpdate e s) = pendingProposal s)"
  by (simp add: handleUpdate_def Let_def)

lemma handleToolEvent_slots:
  assumes "handleToolEvent e s = Some s'"
  shows "(queuedProposalRef s' = queuedProposalRef s \<and> pendingProposal s' = pendingProposal s)
       \<or> (\<exists>p. complete p \<and> queuedProposalRef s' = Some p \<and> pendingProposal s' = None)
       \<or> (queuedProposalRef s' = None
           \<and> (pendingProposal s' = None \<or> pendingProposal s' = pendingProposal s))"
proof (cases "tool_name e = ''check_device_availability''")
  case True
  with assms have "handleAvailability e s = Some s'"
    by (simp add: handleToolEvent_def split: bind_splits if_splits)
  from handleAvailability_slots [OF this] show ?thesis by blast
next
  case False
  with assms have "s' = s \<or> s' = handleUpdate e s"
    by (auto simp: handleToolEvent_def split: if_splits)
  with handleUpdate_slots [of e s] show ?thesis by auto
qed

lemma flushQueuedProposal_slots:
  "queuedProposalRef (flushQueuedProposal s) = None
   \<and> pendingProposal (flushQueuedProposal s) =
       (case queuedProposalRef s of None \<Rightarrow> pendingProposal s | Some p \<Rightarrow> Some p)"
  by (simp add: flushQueuedProposal_def split: option.splits)

lemma ensureAssistantMessage_slots [simp]:
  "queuedProposalRef (widget (ensureAssistantMessage c ctx)) = queuedProposalRef (widget ctx)"
  "pendingProposal (widget (ensureAssistantMessage c ctx)) = pendingProposal (widget ctx)"
  by (simp_all add: ensureAssistantMessage_def Let_def updateMessageContent_def
      split: option.splits)

lemma processEvent_atMostOneLive:
  assumes "atMostOneLive (widget ctx)"
  shows "atMostOneLive (widget (processEvent num e ctx))"
proof (cases e)
  case (Token c)
  with assms show ?thesis
    by (simp add: processEvent_Token atMostOneLive_def split: option.splits)
next
  case (Message c)
  then show ?thesis
    by (simp add: processEvent_def Let_def atMostOneLive_def flushQueuedProposal_slots)
next
  case (Tool ev)
  show ?thesis
  proof (cases "handleToolEvent ev (widget ctx)")
    case None
    with Tool assms show ?thesis by (simp add: processEvent_def)
  next
    case (Some s')
    from handleToolEvent_slots [OF Some] assms have "atMostOneLive s'"
      by (auto simp: atMostOneLive_def)
    with Tool Some show ?thesis by (simp add: processEvent_def)
  qed
next
  case Done
  then show ?thesis
    by (simp add: processEvent_def atMostOneLive_def flushQueuedProposal_slots)
qed

lemma fold_processEvent_atMostOneLive:
  "atMostOneLive (widget ctx) \<Longrightarrow> atMostOneLive (widget (fold (processEvent num) events ctx))"
  by (induction events arbitrary: ctx) (simp_all add: processEvent_atMostOneLive)

lemma processEvent_Done:
  "widget (processEvent num Done ctx) = flushQueuedProposal (widget ctx)"
  by (simp add: processEvent_def)

lemma qualifying_queues:
  assumes "qualifying e p"
  shows "widget (processEvent num (Tool e) ctx) =
           (widget ctx)\<lparr>queuedProposalRef := Some p, pendingProposal := None\<rparr>"
  using assms
  by (simp add: qualifying_def processEvent_def handleToolEvent_def handleAvailability_def Let_def)

text \<open>
  C4. Processing any sequence of stream events keeps at most one proposal alive: a
  proposal is pending only while none is queued. A qualifying availability result
  puts its proposal in the queue slot and clears the pending one. When a second
  qualifying result arrives before promotion, the widget is in the state it would
  be in had only the second arrived: its proposal has replaced the first, and the
  next \<open>done\<close> promotes the second proposal and empties the queue.
\<close>

theorem one_live_proposal:
  assumes "atMostOneLive (widget ctx)" and "qualifying e1 p1" and "qualifying e2 p2"
  shows "atMostOneLive (widget (fold (processEvent num) events ctx))
       \<and> queuedProposalRef (widget (processEvent num (Tool e1) ctx)) = Some p1
       \<and> widget (processEvent num (Tool e2) (processEvent num (Tool e1) ctx)) =
           (widget ctx)\<lparr>queuedProposalRef := Some p2, pendingProposal := None\<rparr>
       \<and> pendingProposal
           (widget (processEvent num Done (processEvent num (Tool e2) (processEvent num (Tool e1) ctx))))
           = Some p2
       \<and> queuedProposalRef
           (widget (processEvent num Done (processEvent num (Tool e2) (processEvent num (Tool e1) ctx))))
           = None"
proof -
  let ?c2 = "processEvent num (Tool e2) (processEvent num (Tool e1) ctx)"
  have w2: "widget ?c2 = (widget ctx)\<lparr>queuedProposalRef := Some p2, pendingProposal := None\<rparr>"
    using assms(2,3) by (simp add: qualifying_queues)
  have "widget (processEvent num Done ?c2) = flushQueuedProposal (widget ?c2)"
    by (rule processEvent_Done)
  with w2 have "pendingProposal (widget (processEvent num Done ?c2)) = Some p2"
    "queuedProposalRef (widget (processEvent num Done ?c2)) = None"
    by (simp_all add: flushQueuedProposal_def)
  with w2 assms fold_processEvent_atMostOneLive [of ctx num events] show ?thesis
    by (simp add: qualifying_queues)
qed

theorem one_live_proposal_witness:
  "atMostOneLive (widget stream0)
   \<and> qualifying (availability_event ''device-001'' ''t1'')
        \<lparr>resource_id = ''device-001'', start_time = ''t1'', end_time = None,
         reservation_id = None, note_text = None\<rparr>
   \<and> qualifying (availability_event ''device-002'' ''t2'')
        \<lparr>resource_id = ''device-002'', start_time = ''t2'', end_time = None,
         reservation_id = None, note_text = None\<rparr>
   \<and> atMostOneLive
        (widget (fold (processEvent literal_text)
           [Tool (availability_event ''device-001'' ''t1''), Token (JText ''ok''),
            Tool (availability_event ''device-002'' ''t2''), Done] stream0))
   \<and> pendingProposal
        (widget (processEvent literal_text Done
           (processEvent literal_text (Tool (availability_event ''device-002'' ''t2''))
              (processEvent literal_text (Tool (availability_event ''device-001'' ''t1'')) stream0))))
       = Some \<lparr>resource_id = ''device-002'', start_time = ''t2'', end_time = None,
               reservation_id = None, note_text = None\<rparr>"
proof -
  have a: "atMostOneLive (widget stream0)"
    by (simp add: atMostOneLive_def stream0_def widget0_def)
  have q1: "qualifying (availability_event ''device-001'' ''t1'')
        \<lparr>resource_id = ''device-001'', start_time = ''t1'', end_time = None,
         reservation_id = None, note_text = None\<rparr>"
    by (simp add: qualifying_def availability_event_def outputOrEmpty_def isAvailable_def
        proposalRawOf_def proposalOf_def buildProposal_def string_or_empty_def
        string_if_truthy_def js_truthy_opt_def)
  have q2: "qualifying (availability_event ''device-002'' ''t2'')
        \<lparr>resource_id = ''device-002'', start_time = ''t2'', end_time = None,
         reservation_id = None, note_text = None\<rparr>"
    by (simp add: qualifying_def availability_event_def outputOrEmpty_def isAvailable_def
        proposalRawOf_def proposalOf_def buildProposal_def string_or_empty_def
        string_if_truthy_def js_truthy_opt_def)
  from one_live_proposal [OF a q1 q2, where num = literal_text] a q1 q2 show ?thesis by blast
qed

subsection \<open>Pending proposals are complete\<close>

lemma proposalsComplete_cleared:
  assumes "proposalsComplete s"
      and "queuedProposalRef s' = None \<or> queuedProposalRef s' = queuedProposalRef s"
      and "pendingProposal s' = None \<or> pendingProposal s' = pendingProposal s"
  shows "proposalsComplete s'"
  using assms by (auto simp: proposalsComplete_def)

lemma flushQueuedProposal_complete:
  "proposalsComplete s \<Longrightarrow> proposalsComplete (flushQueuedProposal s)"
  by (auto simp: proposalsComplete_def flushQueuedProposal_def split: option.splits)

lemma handleToolEvent_complete:
  assumes "handleToolEvent e s = Some s'" and "proposalsComplete s"
  shows "proposalsComplete s'"
  using handleToolEvent_slots [OF assms(1)] assms(2)
  by (auto simp: proposalsComplete_def)

lemma processEvent_complete:
  assumes "proposalsComplete (widget ctx)"
  shows "proposalsComplete (widget (processEvent num e ctx))"
proof (cases e)
  case (Token c)
  with assms show ?thesis
    by (simp add: processEvent_Token proposalsComplete_def split: option.splits)
next
  case (Message c)
  have "proposalsComplete (widget (ensureAssistantMessage c (ctx\<lparr>assembledContent := c\<rparr>)))"
    using assms by (simp add: proposalsComplete_def)
  with Message show ?thesis
    by (simp add: processEvent_def Let_def flushQueuedProposal_complete)
next
  case (Tool ev)
  with assms show ?thesis
    by (cases "handleToolEvent ev (widget ctx)")
       (simp_all add: processEvent_def handleToolEvent_complete)
next
  case Done
  with assms show ?thesis by (simp add: processEvent_def flushQueuedProposal_complete)
qed

lemma processLine_complete:
  "proposalsComplete (widget ctx) \<Longrightarrow> proposalsComplete (widget (processLine num line ctx))"
  by (simp add: processLine_def processEvent_complete split: option.splits)

lemma decisionBegin_complete:
  "proposalsComplete s \<Longrightarrow> proposalsComplete (fst (decisionBegin act s))"
  by (rule proposalsComplete_cleared [of s])
     (auto simp: decisionBegin_def split: option.splits)

lemma clickDecision_complete:
  "proposalsComplete s \<Longrightarrow> proposalsComplete (fst (clickDecision act s))"
  by (simp add: clickDecision_def decisionBegin_complete)

lemma applyDecisionBody_slots:
  "(queuedProposalRef (applyDecisionBody j s) = None
      \<or> queuedProposalRef (applyDecisionBody j s) = queuedProposalRef s)
   \<and> (pendingProposal (applyDecisionBody j s) = None
      \<or> pendingProposal (applyDecisionBody j s) = pendingProposal s)"
  by (simp add: applyDecisionBody_def Let_def split: option.splits)

lemma decisionSettle_slots:
  "(queuedProposalRef (decisionSettle act response s) = None
      \<or> queuedProposalRef (decisionSettle act response s) = queuedProposalRef s)
   \<and> (pendingProposal (decisionSettle act response s) = None
      \<or> pendingProposal (decisionSettle act response s) = pendingProposal s)"
proof (cases response)
  case (DecisionRejected t)
  then show ?thesis by (simp add: decisionSettle_def decisionCatch_def Let_def)
next
  case (DecisionResponded status body)
  show ?thesis
  proof (cases "response_ok status")
    case False
    with DecisionResponded show ?thesis
      by (simp add: decisionSettle_def decisionCatch_def Let_def)
  next
    case True
    show ?thesis
    proof (cases body)
      case (Inl t)
      with True DecisionResponded show ?thesis
        by (simp add: decisionSettle_def decisionCatch_def Let_def)
    next
      case (Inr j)
      with True DecisionResponded applyDecisionBody_slots [of j s] show ?thesis
        by (cases act) (auto simp: decisionSettle_def Let_def)
    qed
  qed
qed

lemma decisionSettle_complete:
  "proposalsComplete s \<Longrightarrow> proposalsComplete (decisionSettle act response s)"
  using decisionSettle_slots [of act response s]
  by (auto simp: proposalsComplete_def)

lemma happen_complete:
  "proposalsComplete (widget ctx) \<Longrightarrow> proposalsComplete (widget (happen num h ctx))"
  by (cases h)
     (simp_all add: processLine_complete flushQueuedProposal_complete clickDecision_complete
        decisionSettle_complete)

lemma fold_happen_complete:
  "proposalsComplete (widget ctx) \<Longrightarrow> proposalsComplete (widget (fold (happen num) hs ctx))"
  by (induction hs arbitrary: ctx) (simp_all add: happen_complete)

text \<open>
  C9. Start with no proposal queued or pending and let anything happen, in any
  order: lines of the stream, the end of a stream, clicks on the card, answers to
  decision requests. A proposal that is pending afterwards has a non-empty
  \<open>resource_id\<close> and a non-empty \<open>start_time\<close>. So a confirm on it passes the
  guard for a missing start time: the handler sets the loading flag and sends the
  request with that start time.
\<close>

theorem pending_proposal_is_complete:
  assumes "queuedProposalRef (widget ctx) = None" and "pendingProposal (widget ctx) = None"
      and "pendingProposal (widget (fold (happen num) hs ctx)) = Some p"
  shows "resource_id p \<noteq> [] \<and> start_time p \<noteq> []
       \<and> decisionBegin Confirm (widget (fold (happen num) hs ctx)) =
           ((widget (fold (happen num) hs ctx))\<lparr>decisionLoading := Some Confirm\<rparr>,
            Some \<lparr>session_id = sessionId (widget (fold (happen num) hs ctx)), action = Confirm,
                  payload_start_time = Some (start_time p), payload_reservation_id = None\<rparr>)"
proof -
  have "proposalsComplete (widget ctx)"
    using assms(1,2) by (simp add: proposalsComplete_def)
  then have "proposalsComplete (widget (fold (happen num) hs ctx))"
    by (rule fold_happen_complete)
  with assms(3) have "complete p"
    by (simp add: proposalsComplete_def)
  with assms(3) show ?thesis
    by (simp add: complete_def decisionBegin_def)
qed

text \<open>
  The proposal of a tool record is promoted by a message record without content,
  and a failed confirm leaves it pending.
\<close>

theorem pending_proposal_is_complete_witness:
  "pendingProposal
     (widget (fold (happen literal_text)
        [Line tool_line, Line bare_message_line, Click Confirm,
         Answer Confirm (DecisionResponded 500 (Inr JNull))] stream0)) = Some proposal0
   \<and> resource_id proposal0 \<noteq> [] \<and> start_time proposal0 \<noteq> []
   \<and> snd (decisionBegin Confirm
        (widget (fold (happen literal_text)
           [Line tool_line, Line bare_message_line, Click Confirm,
            Answer Confirm (DecisionResponded 500 (Inr JNull))] stream0))) \<noteq> None"
proof -
  have q: "queuedProposalRef (widget stream0) = None" "pendingProposal (widget stream0) = None"
    by (simp_all add: stream0_def widget0_def)
  have p: "pendingProposal
     (widget (fold (happen literal_text)
        [Line tool_line, Line bare_message_line, Click Confirm,
         Answer Confirm (DecisionResponded 500 (Inr JNull))] stream0)) = Some proposal0"
    by code_simp
  from pending_proposal_is_complete [OF q p] p show ?thesis by simp
qed

subsection \<open>The reading loop and chunk boundaries\<close>

lemma split_nl_nonempty [simp]: "split_nl s \<noteq> []"
  by (induction s) (auto split: list.splits)

lemma split_nl_append:
  "split_nl (x @ y) = butlast (split_nl x) @ split_nl (last (split_nl x) @ y)"
proof (induction x)
  case Nil
  then show ?case by simp
next
  case (Cons c cs)
  show ?case
  proof (cases "c = CHR 0x0A")
    case True
    with Cons show ?thesis by simp
  next
    case False
    obtain l ls where sp: "split_nl cs = l # ls"
      by (cases "split_nl cs") auto
    show ?thesis
    proof (cases ls)
      case Nil
      with Cons sp False show ?thesis by simp
    next
      case (Cons l' ls')
      with Cons.IH sp False show ?thesis by simp
    qed
  qed
qed

lemma split_nl_no_newline:
  "CHR 0x0A \<notin> set r \<Longrightarrow> split_nl (r @ y) = (r @ hd (split_nl y)) # tl (split_nl y)"
  by (induction r) (auto split: list.splits)

lemma split_nl_one_line: "CHR 0x0A \<notin> set r \<Longrightarrow> split_nl r = [r]"
  using split_nl_no_newline [of r "[]"] by simp

lemma last_split_nl_no_newline: "CHR 0x0A \<notin> set (last (split_nl s))"
  by (induction s) (auto split: list.splits)

lemma fold_readChunk:
  assumes "CHR 0x0A \<notin> set b"
  shows "fold (readChunk pl) chunks (b, c) =
     (last (split_nl (b @ concat chunks)),
      fold (\<lambda>rawLine c. if trim rawLine \<noteq> [] then pl (trim rawLine) c else c)
        (butlast (split_nl (b @ concat chunks))) c)"
  using assms
proof (induction chunks arbitrary: b c)
  case Nil
  then show ?case by (simp add: split_nl_one_line)
next
  case (Cons v vs)
  let ?b = "last (split_nl (b @ v))"
  let ?c = "fold (\<lambda>rawLine c. if trim rawLine \<noteq> [] then pl (trim rawLine) c else c)
              (butlast (split_nl (b @ v))) c"
  have step: "readChunk pl v (b, c) = (?b, ?c)"
    by (simp add: readChunk_def Let_def)
  have split: "split_nl (b @ concat (v # vs)) =
          butlast (split_nl (b @ v)) @ split_nl (?b @ concat vs)"
    using split_nl_append [of "b @ v" "concat vs"] by simp
  have "fold (readChunk pl) (v # vs) (b, c) = fold (readChunk pl) vs (?b, ?c)"
    by (simp only: fold_simps step)
  also have "\<dots> =
     (last (split_nl (?b @ concat vs)),
      fold (\<lambda>rawLine c. if trim rawLine \<noteq> [] then pl (trim rawLine) c else c)
        (butlast (split_nl (?b @ concat vs))) ?c)"
    by (rule Cons.IH) (rule last_split_nl_no_newline)
  also have "\<dots> =
     (last (split_nl (b @ concat (v # vs))),
      fold (\<lambda>rawLine c. if trim rawLine \<noteq> [] then pl (trim rawLine) c else c)
        (butlast (split_nl (b @ concat (v # vs)))) c)"
    unfolding split by (simp add: butlast_append)
  finally show ?case .
qed

lemma fold_trimmed:
  "fold (\<lambda>rawLine c. if trim rawLine \<noteq> [] then pl (trim rawLine) c else c) ls c =
     fold pl (filter (\<lambda>l. l \<noteq> []) (map trim ls)) c"
  by (induction ls arbitrary: c) simp_all

lemma readLines_eq:
  "readLines pl chunks c = fold pl (filter (\<lambda>l. l \<noteq> []) (map trim (split_nl (concat chunks)))) c"
proof -
  let ?L = "split_nl (concat chunks)"
  have L: "?L = butlast ?L @ [last ?L]" by simp
  have "readLines pl chunks c =
          fold pl (filter (\<lambda>l. l \<noteq> []) (map trim (butlast ?L @ [last ?L]))) c"
    by (simp add: readLines_def readRemaining_def fold_readChunk fold_trimmed Let_def
        del: append_butlast_last_id)
  with L show ?thesis by simp
qed

lemma split_nl_records:
  assumes "\<forall>r\<in>set records. CHR 0x0A \<notin> set r" and "CHR 0x0A \<notin> set residual"
  shows "split_nl (concat (map (\<lambda>r. r @ [CHR 0x0A]) records) @ residual) = records @ [residual]"
  using assms
proof (induction records)
  case Nil
  then show ?case by (simp add: split_nl_one_line)
next
  case (Cons r rs)
  then show ?case
    using split_nl_no_newline [of r "CHR 0x0A # concat (map (\<lambda>r. r @ [CHR 0x0A]) rs) @ residual"]
    by simp
qed

text \<open>
  C3, as stated, fails: of a record that ends in a carriage return the loop processes
  the trimmed text, not the record; and an empty record is not processed at all.
\<close>

theorem crlf_record_counterexample:
  "readLines collectLine [''{}'' @ [CHR 0x0D, CHR 0x0A]] [] \<noteq> [''{}'' @ [CHR 0x0D]]
   \<and> readLines collectLine [''{}'' @ [CHR 0x0A, CHR 0x0A]] [] \<noteq> [''{}'', '''']"
  by code_simp

lemma trim_Nil [simp]: "trim [] = []"
  by (simp add: trim_def)

lemma filter_trimmed_records:
  "\<forall>r\<in>set records. r \<noteq> [] \<and> trim r = r \<Longrightarrow>
     filter (\<lambda>l. l \<noteq> []) (map trim records) = records"
  by (induction records) simp_all

text \<open>
  C3, amended. Let the concatenation of the chunks be a sequence of records, each
  ended by a line feed, followed by a residual without line feed (empty when the
  last record is complete). Wherever the chunk boundaries fall, the loop hands to
  the line processor, in order, every record with the white space around it trimmed
  off, leaving out the records that are then empty; the residual is trimmed and
  processed last, unless it is then empty. In particular, complete records that are
  not empty and carry no white space around them are processed exactly as they are.
\<close>

theorem stream_lines_trimmed:
  assumes "concat chunks = concat (map (\<lambda>r. r @ [CHR 0x0A]) records) @ residual"
      and "\<forall>r\<in>set records. CHR 0x0A \<notin> set r" and "CHR 0x0A \<notin> set residual"
  shows "readLines pl chunks c =
           fold pl (filter (\<lambda>l. l \<noteq> []) (map trim (records @ [residual]))) c
       \<and> (residual = [] \<and> (\<forall>r\<in>set records. r \<noteq> [] \<and> trim r = r)
            \<longrightarrow> readLines pl chunks c = fold pl records c)"
proof -
  have lines: "split_nl (concat chunks) = records @ [residual]"
    using assms by (simp add: split_nl_records)
  have first: "readLines pl chunks c =
           fold pl (filter (\<lambda>l. l \<noteq> []) (map trim (records @ [residual]))) c"
    by (simp only: readLines_eq lines)
  have "readLines pl chunks c = fold pl records c"
    if empty: "residual = []" and plain: "\<forall>r\<in>set records. r \<noteq> [] \<and> trim r = r"
  proof -
    have "filter (\<lambda>l. l \<noteq> []) (map trim (records @ [residual])) =
            filter (\<lambda>l. l \<noteq> []) (map trim records)"
      using empty by simp
    also have "\<dots> = records"
      by (rule filter_trimmed_records) (rule plain)
    finally show ?thesis
      by (simp only: first)
  qed
  with first show ?thesis by blast
qed

theorem stream_lines_trimmed_witness:
  "readLines collectLine [''[1,'', ''2]'' @ [CHR 0x0A] @ '' {} '' @ [CHR 0x0A] @ ''[]''] []
     = [''[1,2]'', ''{}'', ''[]'']
   \<and> readLines collectLine [''[1,'', ''2]'' @ [CHR 0x0A] @ ''{}'', [CHR 0x0A]] []
     = [''[1,2]'', ''{}'']"
proof -
  have a: "concat [''[1,'', ''2]'' @ [CHR 0x0A] @ '' {} '' @ [CHR 0x0A] @ ''[]'']
        = concat (map (\<lambda>r. r @ [CHR 0x0A]) [''[1,2]'', '' {} '']) @ ''[]''"
    by simp
  from stream_lines_trimmed [OF a, of collectLine "[]"]
  have "readLines collectLine [''[1,'', ''2]'' @ [CHR 0x0A] @ '' {} '' @ [CHR 0x0A] @ ''[]''] []
        = fold collectLine
            (filter (\<lambda>l. l \<noteq> []) (map trim ([''[1,2]'', '' {} ''] @ [''[]'']))) []"
    by simp
  also have "\<dots> = [''[1,2]'', ''{}'', ''[]'']"
    by code_simp
  finally have first: "readLines collectLine
      [''[1,'', ''2]'' @ [CHR 0x0A] @ '' {} '' @ [CHR 0x0A] @ ''[]''] [] = [''[1,2]'', ''{}'', ''[]'']" .
  have b: "concat [''[1,'', ''2]'' @ [CHR 0x0A] @ ''{}'', [CHR 0x0A]]
        = concat (map (\<lambda>r. r @ [CHR 0x0A]) [''[1,2]'', ''{}'']) @ []"
    by simp
  have plain: "\<forall>r\<in>set [''[1,2]'', ''{}'']. r \<noteq> [] \<and> trim r = r"
    by code_simp
  from stream_lines_trimmed [OF b, of collectLine "[]"] plain
  have "readLines collectLine [''[1,'', ''2]'' @ [CHR 0x0A] @ ''{}'', [CHR 0x0A]] []
        = fold collectLine [''[1,2]'', ''{}''] []"
    by simp
  then have second: "readLines collectLine [''[1,'', ''2]'' @ [CHR 0x0A] @ ''{}'', [CHR 0x0A]] []
        = [''[1,2]'', ''{}'']"
    by (simp add: collectLine_def)
  from first second show ?thesis by simp
qed

subsection \<open>The scenario of the two chunks\<close>

lemma parse1: "JSON_parse num scenario_line1 = Some (JObj [(''type'', JStr ''token''), (''content'', JStr text_nin)])"
  by code_simp

lemma parse2: "JSON_parse num scenario_line2 = None"
  by code_simp

lemma parse3: "JSON_parse num scenario_line3 = Some (JObj [(''type'', JStr ''done'')])"
  by code_simp

lemma scen_lines: "filter (\<lambda>l. l \<noteq> []) (map trim (split_nl (concat [scenario_chunk1, scenario_chunk2])))
   = [scenario_line1, scenario_line2, scenario_line3]"
  by code_simp

lemma scenario_lines_nonempty:
  "scenario_line1 \<noteq> []" "scenario_line2 \<noteq> []" "scenario_line3 \<noteq> []"
  by (simp_all add: scenario_line1_def scenario_line2_def scenario_line3_def)

lemma text_nin_nonempty: "text_nin \<noteq> []"
  by (simp add: text_nin_def)

lemma scenario_decode:
  "decodeEvent (JObj [(''type'', JStr ''token''), (''content'', JStr text_nin)])
     = Some (Token (JText text_nin))"
  "decodeEvent (JObj [(''type'', JStr ''done'')]) = Some Done"
  by (simp_all add: decodeEvent_def)

lemma scenario_processLine:
  "processLine num scenario_line1 ctx = processEvent num (Token (JText text_nin)) ctx"
  "processLine num scenario_line2 ctx = ctx"
  "processLine num scenario_line3 ctx = processEvent num Done ctx"
  by (simp_all add: processLine_def scenario_lines_nonempty parse1 parse2 parse3 scenario_decode)

lemma scenario_readStream:
  "readStream num [scenario_chunk1, scenario_chunk2] ctx =
     (processEvent num Done (processEvent num (Token (JText text_nin)) ctx))
       \<lparr>widget := flushQueuedProposal
                    (widget (processEvent num Done (processEvent num (Token (JText text_nin)) ctx)))\<rparr>"
  by (simp add: readStream_def readLines_eq scen_lines scenario_processLine Let_def
      del: concat.simps)

lemma scenario_collect:
  "readLines collectLine [scenario_chunk1, scenario_chunk2] [] =
     [scenario_line1, scenario_line2, scenario_line3]"
  by (simp add: readLines_eq scen_lines collectLine_def del: concat.simps)

text \<open>
  C6, as stated, fails: the two chunks do not yield exactly two lines with the final
  assistant text "received".
\<close>

theorem scenario_counterexample:
  "\<not> (length (readLines collectLine [scenario_chunk1, scenario_chunk2] []) = 2
      \<and> assembledContent (readStream literal_text [scenario_chunk1, scenario_chunk2] stream0)
          = JText text_shoudao)"
proof -
  have "assembledContent (readStream literal_text [scenario_chunk1, scenario_chunk2] stream0)
          = JText text_nin"
    by code_simp
  then show ?thesis by (simp add: text_nin_def text_shoudao_def)
qed

text \<open>
  C6, amended. In a stream that has just begun, with nothing queued, the two chunks
  of the scenario hand three lines to \<^verbatim>\<open>processLine\<close>. The second one,
  \<^verbatim>\<open>{"type":"token"":"message",...}\<close>, is not JSON and is skipped, so exactly two
  events are decoded: the token and \<open>done\<close>. No message event is read; the final
  assistant text is the token's text, carried by one new assistant message, and the
  pending and queued proposal are what they were.
\<close>

theorem scenario_outcome:
  assumes "assistantMessageId ctx = None" and "assembledContent ctx = JText []"
      and "queuedProposalRef (widget ctx) = None"
  shows "readLines collectLine [scenario_chunk1, scenario_chunk2] [] =
           [scenario_line1, scenario_line2, scenario_line3]
       \<and> map (\<lambda>line. Option.bind (JSON_parse num line) decodeEvent)
           [scenario_line1, scenario_line2, scenario_line3]
           = [Some (Token (JText text_nin)), None, Some Done]
       \<and> assembledContent (readStream num [scenario_chunk1, scenario_chunk2] ctx) = JText text_nin
       \<and> messages (widget (readStream num [scenario_chunk1, scenario_chunk2] ctx)) =
           messages (widget ctx) @
             [\<lparr>m_id = Uuid (uuid_drawn (widget ctx)), m_role = Assistant,
               m_content = JText text_nin,
               m_createdAt = clock (widget ctx), m_type = Some Text\<rparr>]
       \<and> pendingProposal (widget (readStream num [scenario_chunk1, scenario_chunk2] ctx))
           = pendingProposal (widget ctx)
       \<and> queuedProposalRef (widget (readStream num [scenario_chunk1, scenario_chunk2] ctx)) = None"
proof -
  let ?c1 = "processEvent num (Token (JText text_nin)) ctx"
  have c1: "assembledContent ?c1 = JText text_nin"
    "messages (widget ?c1) = messages (widget ctx) @
             [\<lparr>m_id = Uuid (uuid_drawn (widget ctx)), m_role = Assistant,
               m_content = JText text_nin,
               m_createdAt = clock (widget ctx), m_type = Some Text\<rparr>]"
    "pendingProposal (widget ?c1) = pendingProposal (widget ctx)"
    "queuedProposalRef (widget ?c1) = None"
    using assms text_nin_nonempty
    by (simp_all add: processEvent_Token js_plus_text js_truthy_opt_def
        ensureAssistantMessage_def Let_def appendMessage_def)
  have fin: "processEvent num Done ?c1 = ?c1\<lparr>widget := flushQueuedProposal (widget ?c1)\<rparr>"
    by (simp add: processEvent_def)
  have flush: "flushQueuedProposal (widget ?c1) = widget ?c1"
    using c1(4) by (simp add: flushQueuedProposal_def)
  have "readStream num [scenario_chunk1, scenario_chunk2] ctx = ?c1"
    by (simp add: scenario_readStream fin flush)
  with c1 show ?thesis
    by (simp add: scenario_collect parse1 parse2 parse3 scenario_decode)
qed

theorem scenario_outcome_witness:
  "assembledContent (readStream literal_text [scenario_chunk1, scenario_chunk2] stream0)
     = JText text_nin
   \<and> map m_content (messages (widget (readStream literal_text [scenario_chunk1, scenario_chunk2] stream0)))
       = [JText text_nin]
   \<and> pendingProposal (widget (readStream literal_text [scenario_chunk1, scenario_chunk2] stream0)) = None"
  using scenario_outcome [of stream0 literal_text]
  by (simp add: stream0_def widget0_def)

end
